theory Spec2Isabelle
  imports Main
begin

section \<open>Settings page: provider connections and the restarting queue\<close>

text \<open>
  The resources page of the settings (the Svelte component whose script holds
  \<^verbatim>\<open>containerConnectionStatus\<close> and \<^verbatim>\<open>restartingQueue\<close>) keeps a map from a
  connection's display name to its last recorded status and a queue of connections whose
  restart was requested. Both \<^verbatim>\<open>ProviderContainerConnectionInfo\<close> and
  \<^verbatim>\<open>ProviderKubernetesConnectionInfo\<close> are read through their \<^verbatim>\<open>name\<close> and
  \<^verbatim>\<open>status\<close> only, so one record stands for either.
\<close>

record ConnectionInfo =
  name :: string
  status :: string

record ProviderInfo =
  internalId :: string
  containerConnections :: "ConnectionInfo list"
  kubernetesConnections :: "ConnectionInfo list"

record IConnectionRestart =
  provider :: string
  container :: string
  loggerHandlerKey :: nat

record IConnectionStatus =
  inProgress :: bool
  action :: "string option"
  cs_status :: string
  cs_error :: "string option"

text \<open>One call of \<^verbatim>\<open>window.startProviderConnectionLifecycle\<close>, as issued by
  \<^verbatim>\<open>startConnectionProvider\<close>: the provider's internal id, the connection and the
  logger key.\<close>

type_synonym lifecycle_call = "string \<times> ConnectionInfo \<times> nat"

record settings_state =
  providers :: "ProviderInfo list"
  containerConnectionStatus :: "string \<rightharpoonup> IConnectionStatus"
  isStatusUpdated :: bool
  restartingQueue :: "IConnectionRestart list"
  started :: "lifecycle_call list"

text \<open>
  \<^verbatim>\<open>getContainerRestarting(provider, container)\<close>: element 0 of the queue filtered
  on both fields being equal (\<^verbatim>\<open>undefined\<close> when the filtered array is empty), and, when it
  is defined, the queue is replaced by its entries whose provider differs \<^emph>\<open>and\<close> whose
  container differs. The function returns the entry and the new queue.
\<close>

definition getContainerRestarting ::
  "string \<Rightarrow> string \<Rightarrow> IConnectionRestart list \<Rightarrow> IConnectionRestart option \<times> IConnectionRestart list"
where
  "getContainerRestarting p c queue =
     (case filter (\<lambda>r. provider r = p \<and> container r = c) queue of
        [] \<Rightarrow> (None, queue)
      | containerToRestart # _ \<Rightarrow>
          (Some containerToRestart, filter (\<lambda>r. provider r \<noteq> p \<and> container r \<noteq> c) queue))"

text \<open>
  The body shared by the two inner \<^verbatim>\<open>forEach\<close> calls of the \<^verbatim>\<open>providerInfos\<close>
  subscriber (one over \<^verbatim>\<open>containerConnections\<close>, one over \<^verbatim>\<open>kubernetesConnections\<close>;
  the two bodies are the same text). \<open>connName\<close> is \<^verbatim>\<open>getProviderConnectionName\<close>, imported
  from \<^verbatim>\<open>./Util\<close>, and is a parameter here.
\<close>

definition updateConnection ::
  "(ProviderInfo \<Rightarrow> ConnectionInfo \<Rightarrow> string) \<Rightarrow> ProviderInfo \<Rightarrow> ConnectionInfo \<Rightarrow>
     settings_state \<Rightarrow> settings_state"
where
  "updateConnection connName p c s =
     (let containerConnectionName = connName p c in
      if (case containerConnectionStatus s containerConnectionName of
            None \<Rightarrow> True
          | Some e \<Rightarrow> cs_status e \<noteq> status c)
      then
        (case getContainerRestarting (internalId p) (name c) (restartingQueue s) of
           (Some containerToRestart, queue') \<Rightarrow>
             s\<lparr>isStatusUpdated := True,
               restartingQueue := queue',
               containerConnectionStatus := (containerConnectionStatus s)
                 (containerConnectionName \<mapsto>
                    \<lparr>inProgress = True, action = Some ''restart'', cs_status = status c,
                     cs_error = None\<rparr>),
               started := started s @ [(internalId p, c, loggerHandlerKey containerToRestart)]\<rparr>
         | (None, queue') \<Rightarrow>
             s\<lparr>isStatusUpdated := True,
               restartingQueue := queue',
               containerConnectionStatus := (containerConnectionStatus s)
                 (containerConnectionName \<mapsto>
                    \<lparr>inProgress = False, action = None, cs_status = status c,
                     cs_error = None\<rparr>)\<rparr>)
      else s)"

definition updateProvider ::
  "(ProviderInfo \<Rightarrow> ConnectionInfo \<Rightarrow> string) \<Rightarrow> ProviderInfo \<Rightarrow> settings_state \<Rightarrow> settings_state"
where
  "updateProvider connName p s =
     fold (updateConnection connName p) (kubernetesConnections p)
       (fold (updateConnection connName p) (containerConnections p) s)"

text \<open>The subscriber itself: store the value, visit every provider, then reset the flag
  that asks for a re-render.\<close>

definition providersSubscriber ::
  "(ProviderInfo \<Rightarrow> ConnectionInfo \<Rightarrow> string) \<Rightarrow> ProviderInfo list \<Rightarrow> settings_state \<Rightarrow> settings_state"
where
  "providersSubscriber connName providerInfosValue s =
     (let s1 = fold (updateProvider connName) providerInfosValue (s\<lparr>providers := providerInfosValue\<rparr>)
      in if isStatusUpdated s1 then s1\<lparr>isStatusUpdated := False\<rparr> else s1)"

definition addConnectionToRestartingQueue :: "IConnectionRestart \<Rightarrow> settings_state \<Rightarrow> settings_state" where
  "addConnectionToRestartingQueue connection s = s\<lparr>restartingQueue := restartingQueue s @ [connection]\<rparr>"


section \<open>Pod details view\<close>

text \<open>
  \<^verbatim>\<open>PodDetails.svelte\<close> shows one pod of the \<^verbatim>\<open>podsInfos\<close> store. Of a \<^verbatim>\<open>PodInfo\<close>
  the component reads \<^verbatim>\<open>Name\<close>, \<^verbatim>\<open>engineId\<close> and \<^verbatim>\<open>kind\<close>; \<^verbatim>\<open>Id\<close> stands for
  the rest. \<^verbatim>\<open>PodUtils.getPodInfoUI\<close> lives in \<^verbatim>\<open>./pod-utils\<close> and is a parameter; it
  is called inside \<^verbatim>\<open>try\<close>, so it answers with a value or with the error it threw.
\<close>

datatype js_error = Error string | TypeError string

fun message :: "js_error \<Rightarrow> string" where
  "message (Error m) = m"
| "message (TypeError m) = m"

record PodInfo =
  Name :: string
  engineId :: string
  kind :: string
  Id :: string

text \<open>The component: its three props, the displayed \<^verbatim>\<open>pod\<close>, whether
  \<^verbatim>\<open>podUnsubscribe\<close> holds an unsubscriber, whether the store still has the component's
  callback among its subscribers, and what went to \<^verbatim>\<open>console.error\<close>.\<close>

record 'ui pod_details =
  podName :: string
  prop_engineId :: string
  prop_kind :: string
  pod :: "'ui option"
  podUnsubscribe :: bool
  subscribed :: bool
  console_error :: "js_error list"

definition podsSubscriber ::
  "(PodInfo \<Rightarrow> js_error + 'ui) \<Rightarrow> PodInfo list \<Rightarrow> 'ui pod_details \<Rightarrow> 'ui pod_details"
where
  "podsSubscriber getPodInfoUI pods s =
     (case List.find (\<lambda>podInPods. Name podInPods = podName s \<and> engineId podInPods = prop_engineId s
                                  \<and> prop_kind s = kind podInPods) pods of
        None \<Rightarrow> s
      | Some matchingPod \<Rightarrow>
          (case getPodInfoUI matchingPod of
             Inr ui \<Rightarrow> s\<lparr>pod := Some ui\<rparr>
           | Inl err \<Rightarrow> s\<lparr>console_error := console_error s @ [err]\<rparr>))"





section \<open>Deployment wizard: data\<close>

text \<open>
  \<^verbatim>\<open>DeployPodToKube.svelte\<close> loads the YAML that \<^verbatim>\<open>podman generate kube\<close> printed
  into \<^verbatim>\<open>bodyPod\<close>. The model gives the pod body the shape of a \<^verbatim>\<open>V1Pod\<close>: the
  properties the script names are fields, typed as the Kubernetes client types them, and
  optional where the script guards them with \<^verbatim>\<open>?.\<close> or a truth test. All other properties
  of an object are kept under \<open>other\<close>, by key. The body is a tree: no two places of it are
  the same JavaScript object.
\<close>

datatype yaml = YNull | YBool bool | YNum int | YStr string | YSeq "yaml list" | YMap "(string \<times> yaml) list"

text \<open>\<^verbatim>\<open>creationTimestamp\<close> is a string after loading; \<^verbatim>\<open>new Date(x)\<close> makes the
  \<^verbatim>\<open>Date\<close> of that text, and the \<^verbatim>\<open>Date\<close> of a \<^verbatim>\<open>Date\<close> is the same instant.\<close>

datatype timestamp = TimeString string | DateObject string

fun new_Date :: "timestamp \<Rightarrow> timestamp" where
  "new_Date (TimeString t) = DateObject t"
| "new_Date (DateObject t) = DateObject t"

record V1ContainerPort =
  port_name :: "string option"
  hostPort :: "nat option"
  containerPort :: nat
  protocol :: "string option"
  port_other :: "(string \<times> yaml) list"

record V1Container =
  volumeMounts :: "yaml list option"
  ports :: "V1ContainerPort list option"
  container_other :: "(string \<times> yaml) list"

record V1PodSpec =
  volumes :: "yaml list option"
  containers :: "V1Container list option"
  spec_other :: "(string \<times> yaml) list"

record V1ObjectMeta =
  meta_name :: "string option"
  creationTimestamp :: "timestamp option"
  meta_other :: "(string \<times> yaml) list"

record V1Pod =
  metadata :: "V1ObjectMeta option"
  spec :: "V1PodSpec option"
  pod_other :: "(string \<times> yaml) list"

text \<open>The truth tests of JavaScript on the values the script tests: a number is true unless
  it is 0, a string unless it is empty, an array or a \<^verbatim>\<open>Date\<close> always, \<^verbatim>\<open>undefined\<close>
  never. The tests on strings and on the time stamp are functions here; the test on
  \<^verbatim>\<open>port.hostPort\<close> is written out where it is made.\<close>

fun truthy_string :: "string option \<Rightarrow> bool" where
  "truthy_string None = False"
| "truthy_string (Some t) = (t \<noteq> [])"

fun truthy_timestamp :: "timestamp option \<Rightarrow> bool" where
  "truthy_timestamp None = False"
| "truthy_timestamp (Some (TimeString t)) = (t \<noteq> [])"
| "truthy_timestamp (Some (DateObject t)) = True"

text \<open>The two conversions of a template literal that the script needs: a port number is
  printed in decimal (what JavaScript does for every integer below \<open>10\<^sup>2\<^sup>1\<close>), and
  \<^verbatim>\<open>undefined\<close> is printed as the word.\<close>

function decimal :: "nat \<Rightarrow> string" where
  "decimal n = (if n < 10 then [''0123456789'' ! n]
                else decimal (n div 10) @ [''0123456789'' ! (n mod 10)])"
  by pat_completeness auto
termination
  by (relation "measure id") auto

declare decimal.simps [simp del]

fun template_string :: "string option \<Rightarrow> string" where
  "template_string None = ''undefined''"
| "template_string (Some t) = t"

text \<open>The objects built for the cluster. A service is
  \<^verbatim>\<open>{apiVersion, kind, metadata: {name, namespace}, spec: {ports: [...], selector: {app}}}\<close>,
  a route \<^verbatim>\<open>{apiVersion, kind, metadata: {name, namespace}, spec: {port: {targetPort}, to: {kind, name}}}\<close>;
  the fields of the inner objects carry the path in their names.\<close>

record ObjectName =
  obj_name :: string
  obj_namespace :: "string option"

record ServicePort =
  sp_name :: "string option"
  sp_port :: nat
  sp_protocol :: string
  sp_targetPort :: nat

record V1Service =
  svc_apiVersion :: string
  svc_kind :: string
  svc_metadata :: ObjectName
  svc_spec_ports :: "ServicePort list"
  svc_spec_selector_app :: "string option"

record RouteBody =
  route_apiVersion :: string
  route_kind :: string
  route_metadata :: ObjectName
  route_spec_port_targetPort :: nat
  route_spec_to_kind :: string
  route_spec_to_name :: string

text \<open>What the cluster hands back: of a pod the script reads \<^verbatim>\<open>metadata.name\<close>,
  \<^verbatim>\<open>metadata.namespace\<close> and \<^verbatim>\<open>status?.phase\<close>; of a route the template reads
  \<^verbatim>\<open>metadata.name\<close> and \<^verbatim>\<open>spec.host\<close>.\<close>

record ClusterPod =
  cluster_name :: "string option"
  cluster_namespace :: "string option"
  status_phase :: "string option"

record V1Route =
  created_route_name :: string
  created_route_host :: string

record eventProperties =
  useServices :: bool
  useRoutes :: bool
  isOpenshift :: "bool option"
  errorMessage :: "string option"

text \<open>The calls through the preload bridge (\<^verbatim>\<open>window.*\<close>) that \<^verbatim>\<open>deployToKube\<close> and
  \<^verbatim>\<open>updatePod\<close> make, with their arguments.\<close>

datatype bridge_call =
    CreatePod "string option" "V1Pod option"
  | CreateService "string option" V1Service
  | CreateRoute "string option" RouteBody
  | ReadNamespacedPod "string option" "string option"
  | TelemetryTrack string eventProperties

text \<open>The other side of the bridge is not part of this code. Each awaited call either
  returns or throws, and the answer may depend on every call made before it, so each function
  takes the calls so far. \<^verbatim>\<open>telemetryTrack\<close> is not awaited and does not answer.\<close>

record bridge =
  kubernetesCreatePod :: "bridge_call list \<Rightarrow> string option \<Rightarrow> V1Pod option \<Rightarrow> js_error + ClusterPod"
  kubernetesCreateService :: "bridge_call list \<Rightarrow> string option \<Rightarrow> V1Service \<Rightarrow> js_error + unit"
  openshiftCreateRoute :: "bridge_call list \<Rightarrow> string option \<Rightarrow> RouteBody \<Rightarrow> js_error + V1Route"
  kubernetesReadNamespacedPod :: "bridge_call list \<Rightarrow> string option \<Rightarrow> string option \<Rightarrow> js_error + ClusterPod"

text \<open>The component's variables, then the part of the window it acts on: the intervals
  that are running (handle and period in milliseconds; \<^verbatim>\<open>updatePod\<close> is the only callback
  ever registered), the next handle \<^verbatim>\<open>setInterval\<close> will give out, and the bridge calls
  made so far.\<close>

record wizard =
  resourceId :: string
  wizard_engineId :: string
  kubeDetails :: "string option"
  defaultContextName :: "string option"
  currentNamespace :: "string option"
  allNamespaces :: "string list option"
  deployStarted :: bool
  deployFinished :: bool
  deployError :: "js_error option"
  updatePodInterval :: "nat option"
  openshiftConsoleURL :: "string option"
  deployUsingServices :: bool
  deployUsingRoutes :: bool
  createdPod :: "ClusterPod option"
  bodyPod :: "V1Pod option"
  createdRoutes :: "V1Route list"
  intervals :: "(nat \<times> nat) list"
  nextHandle :: nat
  calls :: "bridge_call list"

definition setInterval :: "nat \<Rightarrow> wizard \<Rightarrow> nat \<times> wizard" where
  "setInterval ms s =
     (nextHandle s, s\<lparr>intervals := intervals s @ [(nextHandle s, ms)], nextHandle := Suc (nextHandle s)\<rparr>)"

fun clearInterval :: "nat option \<Rightarrow> wizard \<Rightarrow> wizard" where
  "clearInterval None s = s"
| "clearInterval (Some h) s = s\<lparr>intervals := filter (\<lambda>(h', ms). h' \<noteq> h) (intervals s)\<rparr>"


section \<open>Deployment wizard: mounting\<close>

text \<open>What the calls of \<^verbatim>\<open>onMount\<close> answer. \<^verbatim>\<open>jsYaml.load\<close> is the library's parser
  and may throw as well; a config map is read through \<^verbatim>\<open>?.data?.consoleURL\<close> only.\<close>

record V1ConfigMap =
  cm_data :: "(string \<times> string) list option"

record mount_answers =
  generatePodmanKube :: "string \<Rightarrow> string list \<Rightarrow> js_error + string"
  jsYaml_load :: "string \<Rightarrow> js_error + V1Pod option"
  kubernetesGetCurrentContextName :: "js_error + string option"
  kubernetesGetCurrentNamespace :: "js_error + string option"
  kubernetesListNamespaces :: "js_error + string list"
  kubernetesReadNamespacedConfigMap :: "string \<Rightarrow> string \<Rightarrow> js_error + V1ConfigMap option"

definition consoleURL :: "V1ConfigMap option \<Rightarrow> string option" where
  "consoleURL openshiftConfigMap =
     (case openshiftConfigMap of
        None \<Rightarrow> None
      | Some cm \<Rightarrow> (case cm_data cm of None \<Rightarrow> None | Some d \<Rightarrow> map_of d ''consoleURL''))"

text \<open>\<^verbatim>\<open>onMount\<close>, statement by statement. A call outside \<^verbatim>\<open>try\<close> that throws ends
  the function with that error; the two calls inside \<^verbatim>\<open>try\<close> only log.\<close>

definition onMount :: "mount_answers \<Rightarrow> wizard \<Rightarrow> js_error + wizard" where
  "onMount w s =
     (case generatePodmanKube w (wizard_engineId s) [resourceId s] of
        Inl e \<Rightarrow> Inl e
      | Inr kubeResult \<Rightarrow>
     (case jsYaml_load w kubeResult of
        Inl e \<Rightarrow> Inl e
      | Inr body \<Rightarrow>
     (case kubernetesGetCurrentContextName w of
        Inl e \<Rightarrow> Inl e
      | Inr contextName \<Rightarrow>
     (case kubernetesGetCurrentNamespace w of
        Inl e \<Rightarrow> Inl e
      | Inr namespace \<Rightarrow>
          (let s1 = s\<lparr>kubeDetails := Some kubeResult, bodyPod := body,
                      defaultContextName := contextName, currentNamespace := namespace\<rparr>;
               s2 = (if \<not> truthy_string (currentNamespace s1)
                     then s1\<lparr>currentNamespace := Some ''default''\<rparr> else s1);
               s3 = (case kubernetesListNamespaces w of
                       Inl error \<Rightarrow> s2
                     | Inr namespaces \<Rightarrow> s2\<lparr>allNamespaces := Some namespaces\<rparr>);
               s4 = (case kubernetesReadNamespacedConfigMap w ''console-public'' ''openshift-config-managed'' of
                       Inl error \<Rightarrow> s3
                     | Inr openshiftConfigMap \<Rightarrow> s3\<lparr>openshiftConsoleURL := consoleURL openshiftConfigMap\<rparr>)
           in Inr s4)))))"


section \<open>Deployment wizard: deployToKube\<close>

text \<open>The body of the inner \<^verbatim>\<open>forEach\<close> over a container's ports.
  \<^verbatim>\<open>bodyPod.metadata.name\<close> is read without a guard, so a body with no metadata throws
  there. \<open>md\<close> is \<^verbatim>\<open>bodyPod.metadata\<close>, which the iteration leaves alone.\<close>

definition collect_port ::
  "wizard \<Rightarrow> V1ObjectMeta option \<Rightarrow> V1ContainerPort \<Rightarrow> V1Service list \<times> RouteBody list \<Rightarrow>
     js_error + (V1ContainerPort \<times> V1Service list \<times> RouteBody list)"
where
  "collect_port s md port acc =
     (case acc of (servicesToCreate, routesToCreate) \<Rightarrow>
      (case hostPort port of
         None \<Rightarrow> Inr (port, servicesToCreate, routesToCreate)
       | Some hp \<Rightarrow>
           if hp = 0 then Inr (port, servicesToCreate, routesToCreate)
           else
             (case md of
                None \<Rightarrow> Inl (TypeError ''bodyPod.metadata is undefined'')
              | Some m \<Rightarrow>
                  (let service =
                         \<lparr>svc_apiVersion = ''v1'', svc_kind = ''Service'',
                          svc_metadata = \<lparr>obj_name = template_string (meta_name m) @ ''-'' @ decimal hp,
                                          obj_namespace = currentNamespace s\<rparr>,
                          svc_spec_ports =
                            [\<lparr>sp_name = port_name port, sp_port = hp,
                              sp_protocol = (case protocol port of
                                               None \<Rightarrow> ''TCP''
                                             | Some pr \<Rightarrow> if pr = [] then ''TCP'' else pr),
                              sp_targetPort = containerPort port\<rparr>],
                          svc_spec_selector_app = meta_name m\<rparr>;
                       route =
                         \<lparr>route_apiVersion = ''route.openshift.io/v1'', route_kind = ''Route'',
                          route_metadata = \<lparr>obj_name = template_string (meta_name m) @ ''-'' @ decimal hp,
                                            obj_namespace = currentNamespace s\<rparr>,
                          route_spec_port_targetPort = containerPort port,
                          route_spec_to_kind = ''Service'',
                          route_spec_to_name = template_string (meta_name m) @ ''-'' @ decimal hp\<rparr>
                   in Inr (port\<lparr>hostPort := None\<rparr>,
                           servicesToCreate @ [service],
                           (if truthy_string (openshiftConsoleURL s) \<and> deployUsingRoutes s
                            then routesToCreate @ [route] else routesToCreate))))))"

fun forEach_port ::
  "wizard \<Rightarrow> V1ObjectMeta option \<Rightarrow> V1ContainerPort list \<Rightarrow> V1Service list \<times> RouteBody list \<Rightarrow>
     js_error + (V1ContainerPort list \<times> V1Service list \<times> RouteBody list)"
where
  "forEach_port s md [] acc = Inr ([], acc)"
| "forEach_port s md (port # rest) acc =
     (case collect_port s md port acc of
        Inl e \<Rightarrow> Inl e
      | Inr (port', acc') \<Rightarrow>
          (case forEach_port s md rest acc' of
             Inl e \<Rightarrow> Inl e
           | Inr (rest', acc'') \<Rightarrow> Inr (port' # rest', acc'')))"

text \<open>The body of the outer \<^verbatim>\<open>forEach\<close> over the containers.\<close>

definition collect_container ::
  "wizard \<Rightarrow> V1ObjectMeta option \<Rightarrow> V1Container \<Rightarrow> V1Service list \<times> RouteBody list \<Rightarrow>
     js_error + (V1Container \<times> V1Service list \<times> RouteBody list)"
where
  "collect_container s md ctr acc =
     (let ctr1 = (case volumeMounts ctr of
                          None \<Rightarrow> ctr
                        | Some v \<Rightarrow> ctr\<lparr>volumeMounts := None\<rparr>)
      in case ports ctr1 of
           None \<Rightarrow> Inr (ctr1, acc)
         | Some ps \<Rightarrow>
             (case forEach_port s md ps acc of
                Inl e \<Rightarrow> Inl e
              | Inr (ps', acc') \<Rightarrow> Inr (ctr1\<lparr>ports := Some ps'\<rparr>, acc')))"

fun forEach_container ::
  "wizard \<Rightarrow> V1ObjectMeta option \<Rightarrow> V1Container list \<Rightarrow> V1Service list \<times> RouteBody list \<Rightarrow>
     js_error + (V1Container list \<times> V1Service list \<times> RouteBody list)"
where
  "forEach_container s md [] acc = Inr ([], acc)"
| "forEach_container s md (ctr # rest) acc =
     (case collect_container s md ctr acc of
        Inl e \<Rightarrow> Inl e
      | Inr (ctr', acc') \<Rightarrow>
          (case forEach_container s md rest acc' of
             Inl e \<Rightarrow> Inl e
           | Inr (rest', acc'') \<Rightarrow> Inr (ctr' # rest', acc'')))"

text \<open>\<^verbatim>\<open>if (bodyPod?.spec?.volumes) delete bodyPod.spec.volumes\<close>, on a body that is
  there.\<close>

definition delete_volumes :: "V1Pod \<Rightarrow> V1Pod" where
  "delete_volumes body =
     (case spec body of
        None \<Rightarrow> body
      | Some sp \<Rightarrow> (case volumes sp of
                     None \<Rightarrow> body
                   | Some v \<Rightarrow> body\<lparr>spec := Some (sp\<lparr>volumes := None\<rparr>)\<rparr>))"

text \<open>The block under \<^verbatim>\<open>if (deployUsingServices)\<close>: \<^verbatim>\<open>bodyPod.spec\<close> has no guard on
  \<^verbatim>\<open>bodyPod\<close>, the two steps after it have.\<close>

definition collect_body ::
  "wizard \<Rightarrow> js_error + (V1Pod option \<times> V1Service list \<times> RouteBody list)"
where
  "collect_body s =
     (case bodyPod s of
        None \<Rightarrow> Inl (TypeError ''bodyPod is undefined'')
      | Some body \<Rightarrow>
          (case spec body of
             None \<Rightarrow> Inr (Some body, [], [])
           | Some sp \<Rightarrow>
               (case containers sp of
                  None \<Rightarrow> Inr (Some body, [], [])
                | Some cs \<Rightarrow>
                    (case forEach_container s (metadata body) cs ([], []) of
                       Inl e \<Rightarrow> Inl e
                     | Inr (cs', servicesToCreate, routesToCreate) \<Rightarrow>
                         Inr (Some (body\<lparr>spec := Some (sp\<lparr>containers := Some cs'\<rparr>)\<rparr>),
                              servicesToCreate, routesToCreate)))))"

definition convert_creationTimestamp :: "V1Pod \<Rightarrow> V1Pod" where
  "convert_creationTimestamp body =
     (case metadata body of
        None \<Rightarrow> body
      | Some m \<Rightarrow>
          if truthy_timestamp (creationTimestamp m)
          then body\<lparr>metadata := Some (m\<lparr>creationTimestamp := map_option new_Date (creationTimestamp m)\<rparr>)\<rparr>
          else body)"

text \<open>
  \<^verbatim>\<open>deployToKube\<close> up to the \<^verbatim>\<open>try\<close>: everything here runs without a pause. It hands
  on the component and the three locals \<^verbatim>\<open>servicesToCreate\<close>, \<^verbatim>\<open>routesToCreate\<close> and
  \<^verbatim>\<open>eventProperties\<close>. A \<^verbatim>\<open>TypeError\<close> in this part is not caught by the function: its
  promise rejects, and the model answers with the error alone.
\<close>

definition deployToKube_prepare ::
  "wizard \<Rightarrow> js_error + (wizard \<times> V1Service list \<times> RouteBody list \<times> eventProperties)"
where
  "deployToKube_prepare s0 =
     (let s1 = clearInterval (updatePodInterval s0)
                 (s0\<lparr>deployStarted := True, deployFinished := False, deployError := None,
                     createdPod := None\<rparr>);
          s2 = s1\<lparr>createdRoutes := []\<rparr>;
          s3 = s2\<lparr>bodyPod := map_option delete_volumes (bodyPod s2)\<rparr>
      in case (if deployUsingServices s3 then collect_body s3 else Inr (bodyPod s3, [], [])) of
           Inl e \<Rightarrow> Inl e
         | Inr (body, servicesToCreate, routesToCreate) \<Rightarrow>
             (let s4 = s3\<lparr>bodyPod := map_option convert_creationTimestamp body\<rparr>;
                  props = \<lparr>useServices = deployUsingServices s4, useRoutes = deployUsingRoutes s4,
                           isOpenshift = (if truthy_string (openshiftConsoleURL s4) then Some True else None),
                           errorMessage = None\<rparr>
              in Inr (s4, servicesToCreate, routesToCreate, props)))"

text \<open>The two \<^verbatim>\<open>for ... of\<close> statements of the \<^verbatim>\<open>try\<close> block. Each logs its call, stops at
  the first one that throws and hands the error to the caller.\<close>

fun createServices :: "bridge \<Rightarrow> V1Service list \<Rightarrow> wizard \<Rightarrow> wizard \<times> js_error option" where
  "createServices b [] s = (s, None)"
| "createServices b (service # rest) s =
     (let s' = s\<lparr>calls := calls s @ [CreateService (currentNamespace s) service]\<rparr>
      in case kubernetesCreateService b (calls s) (currentNamespace s) service of
           Inl e \<Rightarrow> (s', Some e)
         | Inr u \<Rightarrow> createServices b rest s')"

fun createRoutes :: "bridge \<Rightarrow> RouteBody list \<Rightarrow> wizard \<Rightarrow> wizard \<times> js_error option" where
  "createRoutes b [] s = (s, None)"
| "createRoutes b (route # rest) s =
     (let s' = s\<lparr>calls := calls s @ [CreateRoute (currentNamespace s) route]\<rparr>
      in case openshiftCreateRoute b (calls s) (currentNamespace s) route of
           Inl e \<Rightarrow> (s', Some e)
         | Inr createdRoute \<Rightarrow>
             createRoutes b rest (s'\<lparr>createdRoutes := createdRoutes s' @ [createdRoute]\<rparr>))"

definition catch_block :: "eventProperties \<Rightarrow> js_error \<Rightarrow> wizard \<Rightarrow> wizard" where
  "catch_block props error s =
     s\<lparr>calls := calls s @ [TelemetryTrack ''deployToKube'' (props\<lparr>errorMessage := Some (message error)\<rparr>)],
       deployError := Some error, deployStarted := False, deployFinished := False\<rparr>"

text \<open>The \<^verbatim>\<open>try\<close>/\<^verbatim>\<open>catch\<close> statement that ends \<^verbatim>\<open>deployToKube\<close>.\<close>

definition deployToKube_submit ::
  "bridge \<Rightarrow> V1Service list \<Rightarrow> RouteBody list \<Rightarrow> eventProperties \<Rightarrow> wizard \<Rightarrow> wizard"
where
  "deployToKube_submit b servicesToCreate routesToCreate props s =
     (let s1 = s\<lparr>calls := calls s @ [CreatePod (currentNamespace s) (bodyPod s)]\<rparr>
      in case kubernetesCreatePod b (calls s) (currentNamespace s) (bodyPod s) of
           Inl e \<Rightarrow> catch_block props e s1
         | Inr created \<Rightarrow>
             (case createServices b servicesToCreate (s1\<lparr>createdPod := Some created\<rparr>) of
                (s2, Some e) \<Rightarrow> catch_block props e s2
              | (s2, None) \<Rightarrow>
                  (case createRoutes b routesToCreate s2 of
                     (s3, Some e) \<Rightarrow> catch_block props e s3
                   | (s3, None) \<Rightarrow>
                       (case setInterval 2000 (s3\<lparr>calls := calls s3 @ [TelemetryTrack ''deployToKube'' props]\<rparr>) of
                          (h, s4) \<Rightarrow> s4\<lparr>updatePodInterval := Some h\<rparr>))))"

definition deployToKube :: "bridge \<Rightarrow> wizard \<Rightarrow> js_error + wizard" where
  "deployToKube b s =
     (case deployToKube_prepare s of
        Inl e \<Rightarrow> Inl e
      | Inr (s1, servicesToCreate, routesToCreate, props) \<Rightarrow>
          Inr (deployToKube_submit b servicesToCreate routesToCreate props s1))"


section \<open>Deployment wizard: polling and teardown\<close>

text \<open>\<^verbatim>\<open>updatePod\<close>, the callback of the interval. It answers with the component it leaves
  and the error, if it threw: \<^verbatim>\<open>createdPod.metadata\<close> with no created pod, or the read.\<close>

definition updatePod :: "bridge \<Rightarrow> wizard \<Rightarrow> wizard \<times> js_error option" where
  "updatePod b s =
     (case createdPod s of
        None \<Rightarrow> (s, Some (TypeError ''createdPod is undefined''))
      | Some cp \<Rightarrow>
          (let s1 = s\<lparr>calls := calls s @ [ReadNamespacedPod (cluster_name cp) (cluster_namespace cp)]\<rparr>
           in case kubernetesReadNamespacedPod b (calls s) (cluster_name cp) (cluster_namespace cp) of
                Inl e \<Rightarrow> (s1, Some e)
              | Inr updatedPod \<Rightarrow>
                  (let s2 = s1\<lparr>createdPod := Some updatedPod\<rparr>
                   in if status_phase updatedPod = Some ''Running''
                      then ((clearInterval (updatePodInterval s2) s2)
                              \<lparr>deployFinished := True,
                               calls := calls s2 @
                                 [TelemetryTrack ''deployToKube.running''
                                    \<lparr>useServices = deployUsingServices s2, useRoutes = deployUsingRoutes s2,
                                     isOpenshift = None, errorMessage = None\<rparr>]\<rparr>, None)
                      else (s2, None))))"

text \<open>One period of the timers: the window runs the callback once for every interval that
  is running when the period ends.\<close>

definition interval_tick :: "bridge \<Rightarrow> wizard \<Rightarrow> wizard" where
  "interval_tick b s = fold (\<lambda>i s'. fst (updatePod b s')) (intervals s) s"

definition onDestroy :: "wizard \<Rightarrow> wizard" where
  "onDestroy s = clearInterval (updatePodInterval s) s"


section \<open>Vocabulary of the properties\<close>

text \<open>
  The definitions of this section are not code of the components. They name what the
  properties below talk about: the ports of a pod body, the service and the route that belong
  to a port, the body after the clean-up, and the calls a run makes when every call waits for
  the one before it.
\<close>

text \<open>The connections one update of \<^verbatim>\<open>providerInfos\<close> comes to, in order: for each
  provider its container connections, then its Kubernetes connections.\<close>

definition visits :: "ProviderInfo list \<Rightarrow> (ProviderInfo \<times> ConnectionInfo) list" where
  "visits v = concat (map (\<lambda>p. map (Pair p) (containerConnections p @ kubernetesConnections p)) v)"

text \<open>A port is exposed when the test \<^verbatim>\<open>if (port.hostPort)\<close> lets it through.\<close>

definition exposed :: "V1ContainerPort \<Rightarrow> bool" where
  "exposed p = (hostPort p \<noteq> None \<and> hostPort p \<noteq> Some 0)"

definition unexposed :: "V1ContainerPort \<Rightarrow> V1ContainerPort" where
  "unexposed p = (if exposed p then p\<lparr>hostPort := None\<rparr> else p)"

definition ports_of :: "V1Container \<Rightarrow> V1ContainerPort list" where
  "ports_of c = (case ports c of None \<Rightarrow> [] | Some ps \<Rightarrow> ps)"

text \<open>Every container port of a pod body, container after container.\<close>

definition container_ports :: "V1Pod \<Rightarrow> V1ContainerPort list" where
  "container_ports body =
     (case spec body of
        None \<Rightarrow> []
      | Some sp \<Rightarrow> (case containers sp of None \<Rightarrow> [] | Some cs \<Rightarrow> concat (map ports_of cs)))"

definition service_for :: "string option \<Rightarrow> string option \<Rightarrow> V1ContainerPort \<Rightarrow> V1Service" where
  "service_for ns podname p =
     \<lparr>svc_apiVersion = ''v1'', svc_kind = ''Service'',
      svc_metadata = \<lparr>obj_name = template_string podname @ ''-'' @ decimal (the (hostPort p)),
                      obj_namespace = ns\<rparr>,
      svc_spec_ports =
        [\<lparr>sp_name = port_name p, sp_port = the (hostPort p),
          sp_protocol = (if truthy_string (protocol p) then the (protocol p) else ''TCP''),
          sp_targetPort = containerPort p\<rparr>],
      svc_spec_selector_app = podname\<rparr>"

definition route_for :: "string option \<Rightarrow> string option \<Rightarrow> V1ContainerPort \<Rightarrow> RouteBody" where
  "route_for ns podname p =
     \<lparr>route_apiVersion = ''route.openshift.io/v1'', route_kind = ''Route'',
      route_metadata = \<lparr>obj_name = template_string podname @ ''-'' @ decimal (the (hostPort p)),
                        obj_namespace = ns\<rparr>,
      route_spec_port_targetPort = containerPort p,
      route_spec_to_kind = ''Service'',
      route_spec_to_name = template_string podname @ ''-'' @ decimal (the (hostPort p))\<rparr>"

definition routes_wanted :: "wizard \<Rightarrow> bool" where
  "routes_wanted s = (truthy_string (openshiftConsoleURL s) \<and> deployUsingRoutes s)"

text \<open>A container without its volume mounts and without the host ports of its exposed
  ports; a pod body without its volumes, with such containers when services are used, and with
  a true \<^verbatim>\<open>creationTimestamp\<close> turned into a \<^verbatim>\<open>Date\<close>. Nothing else is touched.\<close>

definition stripped :: "V1Container \<Rightarrow> V1Container" where
  "stripped c = c\<lparr>volumeMounts := None, ports := map_option (map unexposed) (ports c)\<rparr>"

definition expected_body :: "bool \<Rightarrow> V1Pod \<Rightarrow> V1Pod" where
  "expected_body viaServices body =
     body\<lparr>metadata :=
            map_option (\<lambda>m. m\<lparr>creationTimestamp :=
                                 (if truthy_timestamp (creationTimestamp m)
                                  then map_option new_Date (creationTimestamp m)
                                  else creationTimestamp m)\<rparr>) (metadata body),
          spec :=
            map_option (\<lambda>sp. sp\<lparr>volumes := None,
                                 containers := (if viaServices then map_option (map stripped) (containers sp)
                                                else containers sp)\<rparr>) (spec body)\<rparr>"

text \<open>The component as the part of \<^verbatim>\<open>deployToKube\<close> before \<^verbatim>\<open>try\<close> leaves it, and the
  telemetry properties it builds.\<close>

definition prepared :: "wizard \<Rightarrow> wizard" where
  "prepared s =
     (clearInterval (updatePodInterval s)
        (s\<lparr>deployStarted := True, deployFinished := False, deployError := None, createdPod := None\<rparr>))
       \<lparr>createdRoutes := [],
        bodyPod := map_option (expected_body (deployUsingServices s)) (bodyPod s)\<rparr>"

definition properties_of :: "wizard \<Rightarrow> eventProperties" where
  "properties_of s =
     \<lparr>useServices = deployUsingServices s, useRoutes = deployUsingRoutes s,
      isOpenshift = (if truthy_string (openshiftConsoleURL s) then Some True else None),
      errorMessage = None\<rparr>"

text \<open>The error a bridge call throws when it is made after the calls of \<open>log\<close>, if it
  throws.\<close>

fun answer_error :: "bridge \<Rightarrow> bridge_call list \<Rightarrow> bridge_call \<Rightarrow> js_error option" where
  "answer_error b log (CreatePod ns body) =
     (case kubernetesCreatePod b log ns body of Inl e \<Rightarrow> Some e | Inr r \<Rightarrow> None)"
| "answer_error b log (CreateService ns service) =
     (case kubernetesCreateService b log ns service of Inl e \<Rightarrow> Some e | Inr r \<Rightarrow> None)"
| "answer_error b log (CreateRoute ns route) =
     (case openshiftCreateRoute b log ns route of Inl e \<Rightarrow> Some e | Inr r \<Rightarrow> None)"
| "answer_error b log (ReadNamespacedPod n ns) =
     (case kubernetesReadNamespacedPod b log n ns of Inl e \<Rightarrow> Some e | Inr r \<Rightarrow> None)"
| "answer_error b log (TelemetryTrack ev props) = None"

text \<open>Strictly sequential calls: the calls of a list that are made, and the error that
  ended the run, when each call is made only after the one before it has returned.\<close>

fun issued :: "bridge \<Rightarrow> bridge_call list \<Rightarrow> bridge_call list \<Rightarrow> bridge_call list \<times> js_error option" where
  "issued b log [] = ([], None)"
| "issued b log (c # plan) =
     (case answer_error b log c of
        Some e \<Rightarrow> ([c], Some e)
      | None \<Rightarrow> (case issued b (log @ [c]) plan of (made, r) \<Rightarrow> (c # made, r)))"

text \<open>The calls a deployment is meant to make: the pod, then the services, then the
  routes.\<close>

definition deploy_plan :: "wizard \<Rightarrow> V1Service list \<Rightarrow> RouteBody list \<Rightarrow> bridge_call list" where
  "deploy_plan s servicesToCreate routesToCreate =
     CreatePod (currentNamespace s) (bodyPod s)
       # map (CreateService (currentNamespace s)) servicesToCreate
       @ map (CreateRoute (currentNamespace s)) routesToCreate"

section \<open>Sample inputs\<close>



definition sample_connName :: "ProviderInfo \<Rightarrow> ConnectionInfo \<Rightarrow> string" where
  "sample_connName p c = internalId p @ ''-'' @ name c"


text \<open>A provider with two machines, both new to the page and both queued for restart.\<close>

definition twin_provider :: ProviderInfo where
  "twin_provider =
     \<lparr>internalId = ''podman'',
      containerConnections = [\<lparr>name = ''machine-a'', status = ''started''\<rparr>,
                              \<lparr>name = ''machine-b'', status = ''started''\<rparr>],
      kubernetesConnections = []\<rparr>"

definition twin_settings :: settings_state where
  "twin_settings =
     \<lparr>providers = [], containerConnectionStatus = Map.empty, isStatusUpdated = False,
      restartingQueue = [\<lparr>provider = ''podman'', container = ''machine-a'', loggerHandlerKey = 1\<rparr>,
                         \<lparr>provider = ''podman'', container = ''machine-b'', loggerHandlerKey = 2\<rparr>],
      started = []\<rparr>"




text \<open>A pod \<^verbatim>\<open>web\<close> with one container and three ports: two with a host port, one
  without.\<close>

definition port_http :: V1ContainerPort where
  "port_http = \<lparr>port_name = Some ''http'', hostPort = Some 8080, containerPort = 80, protocol = None,
                 port_other = []\<rparr>"

definition port_metrics :: V1ContainerPort where
  "port_metrics = \<lparr>port_name = Some ''metrics'', hostPort = None, containerPort = 9090,
                    protocol = Some ''TCP'', port_other = []\<rparr>"

definition port_dns :: V1ContainerPort where
  "port_dns = \<lparr>port_name = None, hostPort = Some 5353, containerPort = 53, protocol = Some ''UDP'',
                port_other = [(''hostIP'', YStr ''127.0.0.1'')]\<rparr>"

definition sample_meta :: V1ObjectMeta where
  "sample_meta = \<lparr>meta_name = Some ''web'', creationTimestamp = Some (TimeString ''2023-03-01T10:00:00Z''),
                   meta_other = [(''labels'', YMap [(''app'', YStr ''web'')])]\<rparr>"

definition sample_container :: V1Container where
  "sample_container =
     \<lparr>volumeMounts = Some [YMap [(''mountPath'', YStr ''/data''), (''name'', YStr ''data'')]],
      ports = Some [port_http, port_metrics, port_dns],
      container_other = [(''image'', YStr ''nginx''), (''name'', YStr ''web'')]\<rparr>"

definition sample_body :: V1Pod where
  "sample_body =
     \<lparr>metadata = Some sample_meta,
      spec = Some \<lparr>volumes = Some [YMap [(''name'', YStr ''data'')]],
                   containers = Some [sample_container],
                   spec_other = [(''restartPolicy'', YStr ''Never'')]\<rparr>,
      pod_other = [(''apiVersion'', YStr ''v1''), (''kind'', YStr ''Pod'')]\<rparr>"

text \<open>The wizard as \<^verbatim>\<open>onMount\<close> leaves it on an OpenShift cluster.\<close>

definition sample_wizard :: wizard where
  "sample_wizard =
     \<lparr>resourceId = ''c0ffee'', wizard_engineId = ''podman'', kubeDetails = Some ''kind: Pod'',
      defaultContextName = Some ''crc'', currentNamespace = Some ''demo'',
      allNamespaces = Some [''default'', ''demo''],
      deployStarted = False, deployFinished = False, deployError = None, updatePodInterval = None,
      openshiftConsoleURL = Some ''https://console.example'',
      deployUsingServices = True, deployUsingRoutes = True, createdPod = None,
      bodyPod = Some sample_body, createdRoutes = [], intervals = [], nextHandle = 1, calls = []\<rparr>"

definition sample_services :: "V1Service list" where
  "sample_services =
     [\<lparr>svc_apiVersion = ''v1'', svc_kind = ''Service'',
       svc_metadata = \<lparr>obj_name = ''web-8080'', obj_namespace = Some ''demo''\<rparr>,
       svc_spec_ports = [\<lparr>sp_name = Some ''http'', sp_port = 8080, sp_protocol = ''TCP'', sp_targetPort = 80\<rparr>],
       svc_spec_selector_app = Some ''web''\<rparr>,
      \<lparr>svc_apiVersion = ''v1'', svc_kind = ''Service'',
       svc_metadata = \<lparr>obj_name = ''web-5353'', obj_namespace = Some ''demo''\<rparr>,
       svc_spec_ports = [\<lparr>sp_name = None, sp_port = 5353, sp_protocol = ''UDP'', sp_targetPort = 53\<rparr>],
       svc_spec_selector_app = Some ''web''\<rparr>]"

definition sample_routes :: "RouteBody list" where
  "sample_routes =
     [\<lparr>route_apiVersion = ''route.openshift.io/v1'', route_kind = ''Route'',
       route_metadata = \<lparr>obj_name = ''web-8080'', obj_namespace = Some ''demo''\<rparr>,
       route_spec_port_targetPort = 80, route_spec_to_kind = ''Service'', route_spec_to_name = ''web-8080''\<rparr>,
      \<lparr>route_apiVersion = ''route.openshift.io/v1'', route_kind = ''Route'',
       route_metadata = \<lparr>obj_name = ''web-5353'', obj_namespace = Some ''demo''\<rparr>,
       route_spec_port_targetPort = 53, route_spec_to_kind = ''Service'', route_spec_to_name = ''web-5353''\<rparr>]"

text \<open>A cluster that accepts everything and reports the pod as pending, and one that
  refuses every service once two calls have been made.\<close>

definition sample_bridge :: bridge where
  "sample_bridge =
     \<lparr>kubernetesCreatePod = (\<lambda>log ns body.
          Inr \<lparr>cluster_name = Some ''web'', cluster_namespace = ns, status_phase = Some ''Pending''\<rparr>),
      kubernetesCreateService = (\<lambda>log ns service. Inr ()),
      openshiftCreateRoute = (\<lambda>log ns route.
          Inr \<lparr>created_route_name = obj_name (route_metadata route),
               created_route_host = obj_name (route_metadata route) @ ''.apps.example''\<rparr>),
      kubernetesReadNamespacedPod = (\<lambda>log n ns.
          Inr \<lparr>cluster_name = n, cluster_namespace = ns, status_phase = Some ''Pending''\<rparr>)\<rparr>"

definition refusing_bridge :: bridge where
  "refusing_bridge =
     sample_bridge\<lparr>kubernetesCreateService := (\<lambda>log ns service.
        if length log < 2 then Inr () else Inl (Error ''services quota exceeded''))\<rparr>"

text \<open>The mount answers of a cluster with no current namespace, no right to list
  namespaces and no OpenShift console.\<close>

definition sample_answers :: mount_answers where
  "sample_answers =
     \<lparr>generatePodmanKube = (\<lambda>engine ids. Inr ''kind: Pod''),
      jsYaml_load = (\<lambda>text. Inr (Some sample_body)),
      kubernetesGetCurrentContextName = Inr (Some ''kind-kind''),
      kubernetesGetCurrentNamespace = Inr None,
      kubernetesListNamespaces = Inl (Error ''namespaces is forbidden''),
      kubernetesReadNamespacedConfigMap = (\<lambda>n ns. Inl (Error ''configmaps not found''))\<rparr>"

definition unmounted_wizard :: wizard where
  "unmounted_wizard =
     \<lparr>resourceId = ''c0ffee'', wizard_engineId = ''podman'', kubeDetails = None,
      defaultContextName = None, currentNamespace = None, allNamespaces = None,
      deployStarted = False, deployFinished = False, deployError = None, updatePodInterval = None,
      openshiftConsoleURL = None, deployUsingServices = True, deployUsingRoutes = True,
      createdPod = None, bodyPod = None, createdRoutes = [], intervals = [], nextHandle = 1, calls = []\<rparr>"




text \<open>The body of the sample pod as it is sent to the cluster when services are used, a
  port with an empty protocol, and the sample wizard opened on the pods above.\<close>

definition sample_sent_body :: V1Pod where
  "sample_sent_body =
     \<lparr>metadata = Some \<lparr>meta_name = Some ''web'', creationTimestamp = Some (DateObject ''2023-03-01T10:00:00Z''),
                       meta_other = [(''labels'', YMap [(''app'', YStr ''web'')])]\<rparr>,
      spec = Some \<lparr>volumes = None,
                   containers = Some
                     [\<lparr>volumeMounts = None,
                       ports = Some [port_http\<lparr>hostPort := None\<rparr>, port_metrics, port_dns\<lparr>hostPort := None\<rparr>],
                       container_other = [(''image'', YStr ''nginx''), (''name'', YStr ''web'')]\<rparr>],
                   spec_other = [(''restartPolicy'', YStr ''Never'')]\<rparr>,
      pod_other = [(''apiVersion'', YStr ''v1''), (''kind'', YStr ''Pod'')]\<rparr>"








section \<open>Facts about the settings page\<close>

lemma filter_Cons_member: "filter P xs = y # ys \<Longrightarrow> y \<in> set xs \<and> P y"
proof -
  assume "filter P xs = y # ys"
  then have "y \<in> set (filter P xs)" by simp
  then show ?thesis by simp
qed




lemma getContainerRestarting_queue:
  "snd (getContainerRestarting p c queue) =
     (if \<exists>r \<in> set queue. provider r = p \<and> container r = c
      then filter (\<lambda>r. provider r \<noteq> p \<and> container r \<noteq> c) queue else queue)"
  by (auto simp: getContainerRestarting_def filter_empty_conv split: list.splits dest: filter_Cons_member)


text \<open>One update as a whole: the subscriber is the loop body run over the connections in
  the order of \<open>visits\<close>, and an entry that differs after the update belongs to a connection
  of the update for which the map, as it was before the update, had no entry or another
  status.\<close>

lemma updateConnection_changes:
  "containerConnectionStatus (updateConnection connName p c s) k = containerConnectionStatus s k
   \<or> (k = connName p c
       \<and> (containerConnectionStatus s k = None
            \<or> (\<exists>e. containerConnectionStatus s k = Some e \<and> cs_status e \<noteq> status c)))"
  by (cases "getContainerRestarting (internalId p) (name c) (restartingQueue s)")
     (auto simp: updateConnection_def Let_def split: option.splits)

lemma fold_updateConnection_changed:
  "containerConnectionStatus (fold (\<lambda>(p, c). updateConnection connName p c) vs s) k
      \<noteq> containerConnectionStatus s k \<Longrightarrow>
   \<exists>(p, c) \<in> set vs. connName p c = k
      \<and> (containerConnectionStatus s k = None
           \<or> (\<exists>e. containerConnectionStatus s k = Some e \<and> cs_status e \<noteq> status c))"
proof (induction vs arbitrary: s)
  case Nil
  then show ?case by simp
next
  case (Cons v vs)
  obtain p c where v: "v = (p, c)" by (cases v)
  show ?case
  proof (cases "containerConnectionStatus (updateConnection connName p c s) k = containerConnectionStatus s k")
    case True
    with Cons.prems v
    have "containerConnectionStatus (fold (\<lambda>(p, c). updateConnection connName p c) vs (updateConnection connName p c s)) k
            \<noteq> containerConnectionStatus (updateConnection connName p c s) k"
      by simp
    from Cons.IH [OF this] True show ?thesis by auto
  next
    case False
    with updateConnection_changes [of connName p c s k] v show ?thesis by auto
  qed
qed

lemma updateProvider_fold:
  "updateProvider connName p s =
     fold (\<lambda>(p, c). updateConnection connName p c) (map (Pair p) (containerConnections p @ kubernetesConnections p)) s"
  by (simp add: updateProvider_def fold_map comp_def)

lemma fold_updateProvider:
  "fold (updateProvider connName) v s = fold (\<lambda>(p, c). updateConnection connName p c) (visits v) s"
  by (induction v arbitrary: s) (simp_all add: visits_def updateProvider_fold)

lemma providersSubscriber_changed:
  assumes "containerConnectionStatus (providersSubscriber connName v s) k \<noteq> containerConnectionStatus s k"
  shows "\<exists>p \<in> set v. \<exists>c \<in> set (containerConnections p @ kubernetesConnections p).
           connName p c = k
           \<and> (containerConnectionStatus s k = None
                \<or> (\<exists>e. containerConnectionStatus s k = Some e \<and> cs_status e \<noteq> status c))"
proof -
  let ?s0 = "s\<lparr>providers := v\<rparr>"
  have "containerConnectionStatus (fold (\<lambda>(p, c). updateConnection connName p c) (visits v) ?s0) k
          \<noteq> containerConnectionStatus ?s0 k"
    using assms by (simp add: providersSubscriber_def Let_def fold_updateProvider split: if_splits)
  from fold_updateConnection_changed [OF this]
  show ?thesis by (auto simp: visits_def)
qed

text \<open>The queue is read through \<^verbatim>\<open>getContainerRestarting\<close>, which drops more than the
  entry it returns. In one update over two queued machines of one provider the first is
  restarted and the second is recorded as idle.\<close>

lemma providersSubscriber_second_restart_lost:
  "map_option inProgress
     (containerConnectionStatus (providersSubscriber sample_connName [twin_provider] twin_settings)
        ''podman-machine-a'') = Some True
   \<and> map_option inProgress
     (containerConnectionStatus (providersSubscriber sample_connName [twin_provider] twin_settings)
        ''podman-machine-b'') = Some False
   \<and> map (fst \<circ> snd) (started (providersSubscriber sample_connName [twin_provider] twin_settings))
       = [\<lparr>name = ''machine-a'', status = ''started''\<rparr>]"
  by (simp add: providersSubscriber_def updateProvider_def updateConnection_def getContainerRestarting_def
        twin_provider_def twin_settings_def sample_connName_def Let_def)


section \<open>Facts about the pod details view\<close>



text \<open>When \<^verbatim>\<open>getPodInfoUI\<close> throws, the error is logged and the displayed pod stays.\<close>

lemma podsSubscriber_throw:
  "List.find (\<lambda>p. Name p = podName s \<and> engineId p = prop_engineId s \<and> prop_kind s = kind p) pods = Some m
     \<Longrightarrow> g m = Inl e \<Longrightarrow> pod (podsSubscriber g pods s) = pod s"
  by (simp add: podsSubscriber_def)


section \<open>Facts about the collection of services and routes\<close>

lemma clearInterval_fields [simp]:
  "bodyPod (clearInterval h s) = bodyPod s"
  "deployUsingServices (clearInterval h s) = deployUsingServices s"
  "deployUsingRoutes (clearInterval h s) = deployUsingRoutes s"
  "openshiftConsoleURL (clearInterval h s) = openshiftConsoleURL s"
  "currentNamespace (clearInterval h s) = currentNamespace s"
  "calls (clearInterval h s) = calls s"
  "nextHandle (clearInterval h s) = nextHandle s"
  "updatePodInterval (clearInterval h s) = updatePodInterval s"
  "deployStarted (clearInterval h s) = deployStarted s"
  "deployFinished (clearInterval h s) = deployFinished s"
  "deployError (clearInterval h s) = deployError s"
  "createdPod (clearInterval h s) = createdPod s"
  "createdRoutes (clearInterval h s) = createdRoutes s"
  by (cases h; simp)+

lemma intervals_clearInterval:
  "intervals (clearInterval h s) = filter (\<lambda>(h', ms). Some h' \<noteq> h) (intervals s)"
  by (cases h) (simp_all add: case_prod_unfold)

lemma collect_port_Some:
  "collect_port s (Some m) p (sv, rt) =
     Inr (unexposed p,
          sv @ (if exposed p then [service_for (currentNamespace s) (meta_name m) p] else []),
          rt @ (if exposed p \<and> routes_wanted s then [route_for (currentNamespace s) (meta_name m) p] else []))"
  by (cases "hostPort p"; cases "protocol p")
     (auto simp: collect_port_def exposed_def unexposed_def service_for_def route_for_def routes_wanted_def Let_def)

lemma collect_port_None:
  "collect_port s None p acc =
     (if exposed p then Inl (TypeError ''bodyPod.metadata is undefined'') else Inr (p, acc))"
  by (cases "hostPort p"; cases acc) (auto simp: collect_port_def exposed_def)

lemma forEach_port_Some:
  "forEach_port s (Some m) ps (sv, rt) =
     Inr (map unexposed ps,
          sv @ map (service_for (currentNamespace s) (meta_name m)) (filter exposed ps),
          rt @ (if routes_wanted s then map (route_for (currentNamespace s) (meta_name m)) (filter exposed ps) else []))"
  by (induction ps arbitrary: sv rt) (simp_all add: collect_port_Some)

lemma forEach_port_None:
  "forEach_port s None ps acc =
     (if \<exists>p \<in> set ps. exposed p then Inl (TypeError ''bodyPod.metadata is undefined'') else Inr (ps, acc))"
  by (induction ps arbitrary: acc) (simp_all add: collect_port_None)

lemma map_unexposed_id: "\<forall>p \<in> set ps. \<not> exposed p \<Longrightarrow> map unexposed ps = ps"
  by (induction ps) (simp_all add: unexposed_def)

lemma collect_container_Some:
  "collect_container s (Some m) c (sv, rt) =
     Inr (stripped c,
          sv @ map (service_for (currentNamespace s) (meta_name m)) (filter exposed (ports_of c)),
          rt @ (if routes_wanted s then map (route_for (currentNamespace s) (meta_name m)) (filter exposed (ports_of c)) else []))"
  by (cases "volumeMounts c"; cases "ports c")
     (simp_all add: collect_container_def stripped_def ports_of_def forEach_port_Some)

lemma collect_container_None:
  "collect_container s None c acc =
     (if \<exists>p \<in> set (ports_of c). exposed p then Inl (TypeError ''bodyPod.metadata is undefined'')
      else Inr (stripped c, acc))"
  by (cases "volumeMounts c"; cases "ports c")
     (simp_all add: collect_container_def stripped_def ports_of_def forEach_port_None map_unexposed_id)

lemma forEach_container_Some:
  "forEach_container s (Some m) cs (sv, rt) =
     Inr (map stripped cs,
          sv @ map (service_for (currentNamespace s) (meta_name m)) (filter exposed (concat (map ports_of cs))),
          rt @ (if routes_wanted s then map (route_for (currentNamespace s) (meta_name m)) (filter exposed (concat (map ports_of cs))) else []))"
  by (induction cs arbitrary: sv rt) (simp_all add: collect_container_Some)

lemma forEach_container_None:
  "forEach_container s None cs acc =
     (if \<exists>p \<in> set (concat (map ports_of cs)). exposed p
      then Inl (TypeError ''bodyPod.metadata is undefined'') else Inr (map stripped cs, acc))"
  by (induction cs arbitrary: acc) (auto simp: collect_container_None)

lemma delete_volumes_eq:
  "delete_volumes body = body\<lparr>spec := map_option (\<lambda>sp. sp\<lparr>volumes := None\<rparr>) (spec body)\<rparr>"
  by (simp add: delete_volumes_def split: option.splits)

lemma convert_creationTimestamp_eq:
  "convert_creationTimestamp body =
     body\<lparr>metadata :=
            map_option (\<lambda>m. m\<lparr>creationTimestamp :=
                                 (if truthy_timestamp (creationTimestamp m)
                                  then map_option new_Date (creationTimestamp m)
                                  else creationTimestamp m)\<rparr>) (metadata body)\<rparr>"
  by (simp add: convert_creationTimestamp_def split: option.splits)

lemma container_ports_delete_volumes [simp]:
  "container_ports (delete_volumes body) = container_ports body"
  by (simp add: delete_volumes_eq container_ports_def split: option.splits)

lemma collect_body_Some:
  assumes "bodyPod s = Some body" and "metadata body = Some m"
  shows "collect_body s =
     Inr (Some (body\<lparr>spec := map_option (\<lambda>sp. sp\<lparr>containers := map_option (map stripped) (containers sp)\<rparr>) (spec body)\<rparr>),
          map (service_for (currentNamespace s) (meta_name m)) (filter exposed (container_ports body)),
          (if routes_wanted s
           then map (route_for (currentNamespace s) (meta_name m)) (filter exposed (container_ports body))
           else []))"
  using assms
  by (simp add: collect_body_def container_ports_def forEach_container_Some split: option.splits)

lemma collect_body_no_metadata:
  assumes "bodyPod s = Some body" and "metadata body = None"
  shows "collect_body s =
     (if \<exists>p \<in> set (container_ports body). exposed p
      then Inl (TypeError ''bodyPod.metadata is undefined'')
      else Inr (Some (body\<lparr>spec := map_option (\<lambda>sp. sp\<lparr>containers := map_option (map stripped) (containers sp)\<rparr>) (spec body)\<rparr>),
                [], []))"
  using assms
  by (auto simp: collect_body_def container_ports_def forEach_container_None split: option.splits)

section \<open>Facts about the part of deployToKube before try\<close>

lemma prepare_without_services:
  assumes "\<not> deployUsingServices s"
  shows "deployToKube_prepare s = Inr (prepared s, [], [], properties_of s)"
  using assms
  by (cases "bodyPod s")
     (simp_all add: deployToKube_prepare_def prepared_def properties_of_def Let_def expected_body_def
        delete_volumes_eq convert_creationTimestamp_eq option.map_comp comp_def)

lemma prepare_no_body:
  assumes "deployUsingServices s" and "bodyPod s = None"
  shows "deployToKube_prepare s = Inl (TypeError ''bodyPod is undefined'')"
  using assms by (simp add: deployToKube_prepare_def Let_def collect_body_def)

lemma prepare_with_services:
  assumes "deployUsingServices s" and "bodyPod s = Some body" and "metadata body = Some m"
  shows "deployToKube_prepare s =
     Inr (prepared s,
          map (service_for (currentNamespace s) (meta_name m)) (filter exposed (container_ports body)),
          (if routes_wanted s
           then map (route_for (currentNamespace s) (meta_name m)) (filter exposed (container_ports body))
           else []),
          properties_of s)"
proof -
  let ?s3 = "(clearInterval (updatePodInterval s)
        (s\<lparr>deployStarted := True, deployFinished := False, deployError := None, createdPod := None\<rparr>))
       \<lparr>createdRoutes := [], bodyPod := Some (delete_volumes body)\<rparr>"
  have b: "bodyPod ?s3 = Some (delete_volumes body)" by simp
  have m: "metadata (delete_volumes body) = Some m"
    using assms(3) by (simp add: delete_volumes_eq)
  have rw: "routes_wanted ?s3 = routes_wanted s" by (simp add: routes_wanted_def)
  have cb: "collect_body ?s3 = Inr (Some ((delete_volumes body)\<lparr>spec := map_option (\<lambda>sp. sp\<lparr>containers := map_option (map stripped) (containers sp)\<rparr>) (spec (delete_volumes body))\<rparr>),
          map (service_for (currentNamespace s) (meta_name m)) (filter exposed (container_ports body)),
          (if routes_wanted s
           then map (route_for (currentNamespace s) (meta_name m)) (filter exposed (container_ports body))
           else []))"
    using collect_body_Some [OF b m] by (simp add: rw)
  show ?thesis
    using assms(1,2) cb
    by (simp add: deployToKube_prepare_def prepared_def properties_of_def Let_def expected_body_def
        delete_volumes_eq convert_creationTimestamp_eq option.map_comp comp_def)
qed

lemma prepare_no_metadata:
  assumes "deployUsingServices s" and "bodyPod s = Some body" and "metadata body = None"
  shows "deployToKube_prepare s =
     (if \<exists>p \<in> set (container_ports body). exposed p
      then Inl (TypeError ''bodyPod.metadata is undefined'')
      else Inr (prepared s, [], [], properties_of s))"
proof -
  let ?s3 = "(clearInterval (updatePodInterval s)
        (s\<lparr>deployStarted := True, deployFinished := False, deployError := None, createdPod := None\<rparr>))
       \<lparr>createdRoutes := [], bodyPod := Some (delete_volumes body)\<rparr>"
  have b: "bodyPod ?s3 = Some (delete_volumes body)" by simp
  have m: "metadata (delete_volumes body) = None"
    using assms(3) by (simp add: delete_volumes_eq)
  have cb: "collect_body ?s3 =
     (if \<exists>p \<in> set (container_ports body). exposed p
      then Inl (TypeError ''bodyPod.metadata is undefined'')
      else Inr (Some ((delete_volumes body)\<lparr>spec := map_option (\<lambda>sp. sp\<lparr>containers := map_option (map stripped) (containers sp)\<rparr>) (spec (delete_volumes body))\<rparr>),
                [], []))"
    using collect_body_no_metadata [OF b m] by simp
  show ?thesis
  proof (cases "\<exists>p \<in> set (container_ports body). exposed p")
    case True
    with assms(1,2) cb show ?thesis
      by (simp add: deployToKube_prepare_def Let_def)
  next
    case False
    with assms(1,2) cb show ?thesis
      by (simp add: deployToKube_prepare_def prepared_def properties_of_def Let_def expected_body_def
          delete_volumes_eq convert_creationTimestamp_eq option.map_comp comp_def)
  qed
qed

text \<open>Whenever that part returns, it leaves the component as \<open>prepared\<close> says, and it makes
  no bridge call.\<close>

lemma prepare_Inr:
  assumes "deployToKube_prepare s = Inr (s1, sv, rt, props)"
  shows "s1 = prepared s \<and> props = properties_of s"
proof (cases "deployUsingServices s")
  case False
  with assms prepare_without_services [of s] show ?thesis by simp
next
  case True
  show ?thesis
  proof (cases "bodyPod s")
    case None
    with assms True prepare_no_body [of s] show ?thesis by simp
  next
    case (Some body)
    show ?thesis
    proof (cases "metadata body")
      case None
      with assms True Some prepare_no_metadata [of s body] show ?thesis
        by (simp split: if_splits)
    next
      case (Some m)
      with assms True \<open>bodyPod s = Some body\<close> prepare_with_services [of s body m] show ?thesis
        by simp
    qed
  qed
qed

lemma prepared_fields [simp]:
  "calls (prepared s) = calls s"
  "currentNamespace (prepared s) = currentNamespace s"
  "bodyPod (prepared s) = map_option (expected_body (deployUsingServices s)) (bodyPod s)"
  "deployStarted (prepared s) = True"
  "deployFinished (prepared s) = False"
  "deployError (prepared s) = None"
  "createdPod (prepared s) = None"
  "nextHandle (prepared s) = nextHandle s"
  "updatePodInterval (prepared s) = updatePodInterval s"
  "intervals (prepared s) = filter (\<lambda>(h, ms). Some h \<noteq> updatePodInterval s) (intervals s)"
  by (simp_all add: prepared_def intervals_clearInterval)


section \<open>Facts about sequential calls and the try block\<close>

lemma issued_append:
  "issued b log (p1 @ p2) =
     (case issued b log p1 of
        (made, Some e) \<Rightarrow> (made, Some e)
      | (made, None) \<Rightarrow> (case issued b (log @ made) p2 of (made2, r) \<Rightarrow> (made @ made2, r)))"
  by (induction p1 arbitrary: log) (auto split: option.splits prod.splits)

lemma issued_None_all: "issued b log plan = (made, None) \<Longrightarrow> made = plan"
  by (induction plan arbitrary: log made) (auto split: option.splits prod.splits)

lemma issued_prefix: "issued b log plan = (made, r) \<Longrightarrow> made = take (length made) plan"
  by (induction plan arbitrary: log made) (auto split: option.splits prod.splits)


lemma issued_Some_last:
  "snd (issued b log plan) = Some e \<Longrightarrow>
     fst (issued b log plan) \<noteq> [] \<and>
     answer_error b (log @ butlast (fst (issued b log plan))) (last (fst (issued b log plan))) = Some e"
proof (induction plan arbitrary: log)
  case Nil
  then show ?case by simp
next
  case (Cons c plan)
  show ?case
  proof (cases "answer_error b log c")
    case None
    obtain made r where i: "issued b (log @ [c]) plan = (made, r)"
      by (cases "issued b (log @ [c]) plan")
    with Cons.prems None have r: "r = Some e" by simp
    with Cons.IH [of "log @ [c]"] i
    have "made \<noteq> [] \<and> answer_error b (log @ [c] @ butlast made) (last made) = Some e"
      by simp
    with None i show ?thesis by simp
  next
    case (Some e')
    with Cons.prems show ?thesis by simp
  qed
qed

lemma issued_earlier_returned:
  "i < length (fst (issued b log plan)) \<Longrightarrow>
   (snd (issued b log plan) \<noteq> None \<longrightarrow> Suc i < length (fst (issued b log plan))) \<Longrightarrow>
     answer_error b (log @ take i plan) (plan ! i) = None"
proof (induction plan arbitrary: log i)
  case Nil
  then show ?case by simp
next
  case (Cons c plan)
  show ?case
  proof (cases "answer_error b log c")
    case None
    obtain made r where m: "issued b (log @ [c]) plan = (made, r)"
      by (cases "issued b (log @ [c]) plan")
    show ?thesis
    proof (cases i)
      case 0
      with None show ?thesis by simp
    next
      case (Suc j)
      with Cons.prems None m have "j < length made" and "r \<noteq> None \<longrightarrow> Suc j < length made"
        by auto
      with Cons.IH [of j "log @ [c]"] m
      have "answer_error b ((log @ [c]) @ take j plan) (plan ! j) = None"
        by simp
      with Suc show ?thesis by simp
    qed
  next
    case (Some e')
    with Cons.prems show ?thesis by auto
  qed
qed

text \<open>The run in terms of positions: it ends at the first call that throws, and it runs
  through when no call throws.\<close>

lemma issued_first_failure:
  "i < length plan \<Longrightarrow> answer_error b (log @ take i plan) (plan ! i) = Some e \<Longrightarrow>
   (\<forall>j<i. answer_error b (log @ take j plan) (plan ! j) = None) \<Longrightarrow>
     issued b log plan = (take (Suc i) plan, Some e)"
proof (induction plan arbitrary: log i)
  case Nil
  then show ?case by simp
next
  case (Cons c plan)
  show ?case
  proof (cases i)
    case 0
    with Cons.prems show ?thesis by simp
  next
    case (Suc k)
    from Cons.prems(3) Suc have c: "answer_error b log c = None"
      by (metis append_Nil2 nth_Cons_0 take_0 zero_less_Suc)
    have e: "answer_error b ((log @ [c]) @ take k plan) (plan ! k) = Some e"
      using Cons.prems(2) Suc by simp
    have "\<forall>j<k. answer_error b ((log @ [c]) @ take j plan) (plan ! j) = None"
    proof (intro allI impI)
      fix j assume "j < k"
      then have "Suc j < i" using Suc by simp
      with Cons.prems(3) have "answer_error b (log @ take (Suc j) (c # plan)) ((c # plan) ! Suc j) = None"
        by blast
      then show "answer_error b ((log @ [c]) @ take j plan) (plan ! j) = None" by simp
    qed
    with Cons.IH [of k "log @ [c]"] e Cons.prems(1) Suc
    have "issued b (log @ [c]) plan = (take (Suc k) plan, Some e)" by simp
    with c Suc show ?thesis by simp
  qed
qed

lemma issued_all_return:
  "(\<forall>i<length plan. answer_error b (log @ take i plan) (plan ! i) = None) \<Longrightarrow>
     issued b log plan = (plan, None)"
proof (induction plan arbitrary: log)
  case Nil
  then show ?case by simp
next
  case (Cons c plan)
  from Cons.prems have c: "answer_error b log c = None"
    by (metis append_Nil2 length_greater_0_conv list.distinct(1) nth_Cons_0 take_0)
  have "\<forall>j<length plan. answer_error b ((log @ [c]) @ take j plan) (plan ! j) = None"
  proof (intro allI impI)
    fix j assume "j < length plan"
    then have "Suc j < length (c # plan)" by simp
    with Cons.prems have "answer_error b (log @ take (Suc j) (c # plan)) ((c # plan) ! Suc j) = None"
      by blast
    then show "answer_error b ((log @ [c]) @ take j plan) (plan ! j) = None" by simp
  qed
  with Cons.IH [of "log @ [c]"] have "issued b (log @ [c]) plan = (plan, None)" by simp
  with c show ?case by simp
qed

lemma createServices_issued:
  "createServices b sv s =
     (s\<lparr>calls := calls s @ fst (issued b (calls s) (map (CreateService (currentNamespace s)) sv))\<rparr>,
      snd (issued b (calls s) (map (CreateService (currentNamespace s)) sv)))"
  by (induction sv arbitrary: s) (auto simp: Let_def split: sum.splits prod.splits option.splits)

lemma createRoutes_issued:
  "calls (fst (createRoutes b rt s)) = calls s @ fst (issued b (calls s) (map (CreateRoute (currentNamespace s)) rt))
   \<and> snd (createRoutes b rt s) = snd (issued b (calls s) (map (CreateRoute (currentNamespace s)) rt))"
  by (induction rt arbitrary: s) (auto simp: Let_def split: sum.splits prod.splits option.splits)

lemma createRoutes_frame:
  "intervals (fst (createRoutes b rt s)) = intervals s"
  "nextHandle (fst (createRoutes b rt s)) = nextHandle s"
  "deployError (fst (createRoutes b rt s)) = deployError s"
  "deployStarted (fst (createRoutes b rt s)) = deployStarted s"
  "deployFinished (fst (createRoutes b rt s)) = deployFinished s"
  "updatePodInterval (fst (createRoutes b rt s)) = updatePodInterval s"
  "createdPod (fst (createRoutes b rt s)) = createdPod s"
  "bodyPod (fst (createRoutes b rt s)) = bodyPod s"
  "currentNamespace (fst (createRoutes b rt s)) = currentNamespace s"
  by (induction rt arbitrary: s; simp add: Let_def split: sum.splits)+

lemma catch_block_fields [simp]:
  "calls (catch_block props e s) = calls s @ [TelemetryTrack ''deployToKube'' (props\<lparr>errorMessage := Some (message e)\<rparr>)]"
  "intervals (catch_block props e s) = intervals s"
  "deployError (catch_block props e s) = Some e"
  "deployStarted (catch_block props e s) = False"
  "deployFinished (catch_block props e s) = False"
  "updatePodInterval (catch_block props e s) = updatePodInterval s"
  "nextHandle (catch_block props e s) = nextHandle s"
  by (simp_all add: catch_block_def)

text \<open>What the \<^verbatim>\<open>try\<close>/\<^verbatim>\<open>catch\<close> statement leaves behind, by the outcome of the
  sequential run of its calls.\<close>

lemma submit_result:
  fixes b sv rt props s
  defines "s' \<equiv> deployToKube_submit b sv rt props s"
  shows "case issued b (calls s) (deploy_plan s sv rt) of
     (made, None) \<Rightarrow>
        calls s' = calls s @ deploy_plan s sv rt @ [TelemetryTrack ''deployToKube'' props]
      \<and> intervals s' = intervals s @ [(nextHandle s, 2000)]
      \<and> updatePodInterval s' = Some (nextHandle s)
      \<and> deployError s' = deployError s \<and> deployStarted s' = deployStarted s
      \<and> deployFinished s' = deployFinished s
   | (made, Some e) \<Rightarrow>
        calls s' = calls s @ made @ [TelemetryTrack ''deployToKube'' (props\<lparr>errorMessage := Some (message e)\<rparr>)]
      \<and> intervals s' = intervals s
      \<and> updatePodInterval s' = updatePodInterval s
      \<and> deployError s' = Some e \<and> \<not> deployStarted s' \<and> \<not> deployFinished s'"
proof (cases "kubernetesCreatePod b (calls s) (currentNamespace s) (bodyPod s)")
  case (Inl e)
  then show ?thesis
    by (simp add: s'_def deployToKube_submit_def deploy_plan_def Let_def)
next
  case (Inr created)
  let ?ns = "currentNamespace s"
  let ?c = "CreatePod ?ns (bodyPod s)"
  let ?s1 = "s\<lparr>calls := calls s @ [?c], createdPod := Some created\<rparr>"
  obtain m1 r1 where i1: "issued b (calls s @ [?c]) (map (CreateService ?ns) sv) = (m1, r1)"
    by (cases "issued b (calls s @ [?c]) (map (CreateService ?ns) sv)")
  have cs: "createServices b sv ?s1 = (?s1\<lparr>calls := calls s @ [?c] @ m1\<rparr>, r1)"
    using createServices_issued [of b sv ?s1] i1 by simp
  show ?thesis
  proof (cases r1)
    case (Some e)
    then show ?thesis
      using Inr i1 cs
      by (simp add: s'_def deployToKube_submit_def deploy_plan_def Let_def issued_append)
  next
    case None
    then have m1: "m1 = map (CreateService ?ns) sv"
      using i1 issued_None_all by blast
    let ?s2 = "?s1\<lparr>calls := calls s @ [?c] @ m1\<rparr>"
    obtain m2 r2 where i2: "issued b (calls s @ [?c] @ m1) (map (CreateRoute ?ns) rt) = (m2, r2)"
      by (cases "issued b (calls s @ [?c] @ m1) (map (CreateRoute ?ns) rt)")
    obtain s3 r3 where cr: "createRoutes b rt ?s2 = (s3, r3)"
      by (cases "createRoutes b rt ?s2")
    have c3: "calls s3 = calls s @ [?c] @ m1 @ m2" and r3: "r3 = r2"
      using createRoutes_issued [of b rt ?s2] cr i2 by simp_all
    have f3: "intervals s3 = intervals s" "nextHandle s3 = nextHandle s" "deployError s3 = deployError s"
      "deployStarted s3 = deployStarted s" "deployFinished s3 = deployFinished s"
      "updatePodInterval s3 = updatePodInterval s"
      using createRoutes_frame [of b rt ?s2] cr by simp_all
    show ?thesis
    proof (cases r2)
      case (Some e)
      then show ?thesis
        using Inr i1 cs None i2 cr c3 r3 f3
        by (simp add: s'_def deployToKube_submit_def deploy_plan_def Let_def issued_append)
    next
      case None': None
      then have m2: "m2 = map (CreateRoute ?ns) rt"
        using i2 issued_None_all by blast
      show ?thesis
        using Inr i1 cs None None' i2 cr c3 r3 f3 m1 m2
        by (simp add: s'_def deployToKube_submit_def deploy_plan_def Let_def issued_append setInterval_def)
    qed
  qed
qed



section \<open>Facts about polling and teardown\<close>

text \<open>A read that reports \<^verbatim>\<open>Running\<close> clears the interval held in
  \<^verbatim>\<open>updatePodInterval\<close> and finishes the deployment; any other read leaves the timers
  and the flag as they were; \<^verbatim>\<open>onDestroy\<close> clears the interval held in
  \<^verbatim>\<open>updatePodInterval\<close> at that moment.\<close>

lemma updatePod_Running:
  assumes "createdPod s = Some cp"
    and "kubernetesReadNamespacedPod b (calls s) (cluster_name cp) (cluster_namespace cp) = Inr updatedPod"
    and "status_phase updatedPod = Some ''Running''"
  shows "deployFinished (fst (updatePod b s))"
    and "intervals (fst (updatePod b s)) = filter (\<lambda>(h, ms). Some h \<noteq> updatePodInterval s) (intervals s)"
    and "createdPod (fst (updatePod b s)) = Some updatedPod"
  using assms by (simp_all add: updatePod_def Let_def intervals_clearInterval)

lemma updatePod_not_Running:
  assumes "createdPod s = Some cp"
    and "kubernetesReadNamespacedPod b (calls s) (cluster_name cp) (cluster_namespace cp) = Inr updatedPod"
    and "status_phase updatedPod \<noteq> Some ''Running''"
  shows "deployFinished (fst (updatePod b s)) = deployFinished s"
    and "intervals (fst (updatePod b s)) = intervals s"
    and "createdPod (fst (updatePod b s)) = Some updatedPod"
  using assms by (simp_all add: updatePod_def Let_def)

lemma onDestroy_intervals:
  "intervals (onDestroy s) = filter (\<lambda>(h, ms). Some h \<noteq> updatePodInterval s) (intervals s)"
  by (simp add: onDestroy_def intervals_clearInterval)

section \<open>Properties of the settings page\<close>

text \<open>
  Claim C10. \<^verbatim>\<open>getContainerRestarting\<close> is meant to hand back the first queued restart of
  the given provider and container and to take out of the queue the entries of that pair
  only. The second filter keeps an entry only when its provider differs \<^emph>\<open>and\<close> its container
  differs, so it also takes out every entry that shares just the provider or just the
  container name. With two machines of provider \<^verbatim>\<open>podman\<close> queued, asking for the first one
  empties the queue: the restart of \<^verbatim>\<open>machine-b\<close> is lost.
\<close>

theorem getContainerRestarting_drops_sibling:
  "getContainerRestarting ''podman'' ''machine-a''
     [\<lparr>provider = ''podman'', container = ''machine-a'', loggerHandlerKey = 1\<rparr>,
      \<lparr>provider = ''podman'', container = ''machine-b'', loggerHandlerKey = 2\<rparr>]
   = (Some \<lparr>provider = ''podman'', container = ''machine-a'', loggerHandlerKey = 1\<rparr>, [])"
  by (simp add: getContainerRestarting_def)




section \<open>Properties of the pod details view\<close>




section \<open>Properties of mounting the wizard\<close>

text \<open>
  Claim C8. When the calls of \<^verbatim>\<open>onMount\<close> that stand outside \<^verbatim>\<open>try\<close> return, mounting
  completes, whatever the two guarded calls do. If \<^verbatim>\<open>kubernetesGetCurrentNamespace\<close>
  answered a falsy value (\<^verbatim>\<open>undefined\<close> or the empty string), \<^verbatim>\<open>currentNamespace\<close> is
  \<^verbatim>\<open>default\<close>, otherwise it is the answer. If \<^verbatim>\<open>kubernetesListNamespaces\<close> throws,
  \<^verbatim>\<open>allNamespaces\<close> keeps the value it had; if reading the \<^verbatim>\<open>console-public\<close> config map
  throws, \<^verbatim>\<open>openshiftConsoleURL\<close> keeps the value it had.
\<close>

theorem onMount_defaults_and_swallows:
  assumes "generatePodmanKube w (wizard_engineId s) [resourceId s] = Inr kubeResult"
    and "jsYaml_load w kubeResult = Inr body"
    and "kubernetesGetCurrentContextName w = Inr contextName"
    and "kubernetesGetCurrentNamespace w = Inr ns"
  shows "\<exists>s'. onMount w s = Inr s'
           \<and> (ns = None \<or> ns = Some [] \<longrightarrow> currentNamespace s' = Some ''default'')
           \<and> (\<not> (ns = None \<or> ns = Some []) \<longrightarrow> currentNamespace s' = ns)
           \<and> (\<forall>e. kubernetesListNamespaces w = Inl e \<longrightarrow> allNamespaces s' = allNamespaces s)
           \<and> (\<forall>e. kubernetesReadNamespacedConfigMap w ''console-public'' ''openshift-config-managed'' = Inl e
                  \<longrightarrow> openshiftConsoleURL s' = openshiftConsoleURL s)"
proof -
  have t: "truthy_string ns \<longleftrightarrow> \<not> (ns = None \<or> ns = Some [])"
    by (cases ns) auto
  show ?thesis
    using assms t
    by (auto simp: onMount_def Let_def split: sum.splits)
qed

theorem onMount_defaults_and_swallows_witness:
  "\<exists>s'. onMount sample_answers unmounted_wizard = Inr s'
        \<and> currentNamespace s' = Some ''default''
        \<and> allNamespaces s' = None
        \<and> openshiftConsoleURL s' = None
        \<and> bodyPod s' = Some sample_body"
proof -
  have a: "generatePodmanKube sample_answers (wizard_engineId unmounted_wizard) [resourceId unmounted_wizard]
             = Inr ''kind: Pod''"
    and b: "jsYaml_load sample_answers ''kind: Pod'' = Inr (Some sample_body)"
    and c: "kubernetesGetCurrentContextName sample_answers = Inr (Some ''kind-kind'')"
    and d: "kubernetesGetCurrentNamespace sample_answers = Inr None"
    by (simp_all add: sample_answers_def)
  from onMount_defaults_and_swallows [OF a b c d]
  obtain s' where m: "onMount sample_answers unmounted_wizard = Inr s'"
    and n: "currentNamespace s' = Some ''default''"
    and l: "\<forall>e. kubernetesListNamespaces sample_answers = Inl e \<longrightarrow> allNamespaces s' = allNamespaces unmounted_wizard"
    and u: "\<forall>e. kubernetesReadNamespacedConfigMap sample_answers ''console-public'' ''openshift-config-managed'' = Inl e
                  \<longrightarrow> openshiftConsoleURL s' = openshiftConsoleURL unmounted_wizard"
    by auto
  from l have "allNamespaces s' = None"
    by (simp add: sample_answers_def unmounted_wizard_def)
  moreover from u have "openshiftConsoleURL s' = None"
    by (simp add: sample_answers_def unmounted_wizard_def)
  moreover from m have "bodyPod s' = Some sample_body"
    by (auto simp: onMount_def sample_answers_def Let_def)
  ultimately show ?thesis using m n by blast
qed

section \<open>Properties of the objects deployToKube builds\<close>





lemma prepare_named:
  assumes "bodyPod s = Some body" and "metadata body = Some m"
  shows "deployToKube_prepare s =
     Inr (prepared s,
          (if deployUsingServices s
           then map (service_for (currentNamespace s) (meta_name m)) (filter exposed (container_ports body))
           else []),
          (if deployUsingServices s \<and> routes_wanted s
           then map (route_for (currentNamespace s) (meta_name m)) (filter exposed (container_ports body))
           else []),
          properties_of s)"
  using assms prepare_with_services [of s body m] prepare_without_services [of s]
  by (cases "deployUsingServices s") simp_all







section \<open>Properties of the body that is sent\<close>

lemma deployToKube_Inr:
  assumes "deployToKube b s = Inr s'"
  shows "\<exists>sv rt. deployToKube_prepare s = Inr (prepared s, sv, rt, properties_of s)
               \<and> s' = deployToKube_submit b sv rt (properties_of s) (prepared s)"
proof (cases "deployToKube_prepare s")
  case (Inl e)
  with assms show ?thesis by (simp add: deployToKube_def)
next
  case (Inr r)
  obtain s1 sv rt props where r: "r = (s1, sv, rt, props)"
    by (cases r)
  with Inr prepare_Inr [of s s1 sv rt props] have "s1 = prepared s" "props = properties_of s"
    by simp_all
  with Inr r assms show ?thesis by (simp add: deployToKube_def)
qed


lemma sample_prepare:
  "deployToKube_prepare sample_wizard
     = Inr (prepared sample_wizard, sample_services, sample_routes, properties_of sample_wizard)"
proof -
  have a: "bodyPod sample_wizard = Some sample_body"
    and b: "metadata sample_body = Some sample_meta"
    by (simp_all add: sample_wizard_def sample_body_def)
  have ports: "container_ports sample_body = [port_http, port_metrics, port_dns]"
    by (simp add: container_ports_def sample_body_def sample_container_def ports_of_def)
  have e: "filter exposed [port_http, port_metrics, port_dns] = [port_http, port_dns]"
    by (simp add: exposed_def port_http_def port_metrics_def port_dns_def)
  have sv: "map (service_for (Some ''demo'') (Some ''web'')) [port_http, port_dns] = sample_services"
    by (simp add: service_for_def sample_services_def port_http_def port_dns_def decimal.simps)
  have rt: "map (route_for (Some ''demo'') (Some ''web'')) [port_http, port_dns] = sample_routes"
    by (simp add: route_for_def sample_routes_def port_http_def port_dns_def decimal.simps)
  have f: "deployUsingServices sample_wizard" "routes_wanted sample_wizard"
    "currentNamespace sample_wizard = Some ''demo''" "meta_name sample_meta = Some ''web''"
    by (simp_all add: sample_wizard_def routes_wanted_def sample_meta_def)
  show ?thesis
    using prepare_named [OF a b] by (simp only: ports e f sv rt if_True simp_thms)
qed

lemma sample_expected_body: "expected_body True sample_body = sample_sent_body"
  by (simp add: expected_body_def sample_body_def sample_sent_body_def sample_meta_def sample_container_def
        stripped_def unexposed_def exposed_def port_http_def port_metrics_def port_dns_def)

lemma sample_prepared:
  "prepared sample_wizard = sample_wizard\<lparr>deployStarted := True, bodyPod := Some sample_sent_body\<rparr>"
  by (simp add: prepared_def sample_wizard_def sample_expected_body)



section \<open>Properties of the bridge calls of deployToKube\<close>

lemma sample_prepared_fields:
  "calls (prepared sample_wizard) = []"
  "intervals (prepared sample_wizard) = []"
  "nextHandle (prepared sample_wizard) = 1"
  "updatePodInterval (prepared sample_wizard) = None"
  "currentNamespace (prepared sample_wizard) = Some ''demo''"
  "bodyPod (prepared sample_wizard) = Some sample_sent_body"
  by (simp_all add: sample_prepared) (simp_all add: sample_wizard_def)

lemma sample_properties:
  "properties_of sample_wizard
     = \<lparr>useServices = True, useRoutes = True, isOpenshift = Some True, errorMessage = None\<rparr>"
  by (simp add: properties_of_def sample_wizard_def)

text \<open>
  Claim C3. Whenever the local part of \<^verbatim>\<open>deployToKube\<close> is done, the function returns, and
  its bridge calls are made strictly one after the other: first \<^verbatim>\<open>kubernetesCreatePod\<close> for
  the pod body, then \<^verbatim>\<open>kubernetesCreateService\<close> once for every generated service in the order
  of collection, then \<^verbatim>\<open>openshiftCreateRoute\<close> once for every generated route in the order of
  collection. If every one of these calls returns, they are followed by the telemetry event and
  then the status-polling interval of 2000 ms is started and its handle kept. If one of them
  throws, the calls made are the ones up to and including that call, every one before it has
  returned, only the telemetry event with the error message follows, and no interval is
  started.
\<close>

theorem deployToKube_call_sequence:
  assumes "deployToKube_prepare s = Inr (s1, servicesToCreate, routesToCreate, props)"
  shows "\<exists>s'. deployToKube b s = Inr s' \<and>
     (let plan = CreatePod (currentNamespace s) (bodyPod s1)
                   # map (CreateService (currentNamespace s)) servicesToCreate
                   @ map (CreateRoute (currentNamespace s)) routesToCreate
      in case issued b (calls s) plan of
           (made, None) \<Rightarrow>
               (\<forall>i<length plan. answer_error b (calls s @ take i plan) (plan ! i) = None)
             \<and> calls s' = calls s @ plan @ [TelemetryTrack ''deployToKube'' props]
             \<and> intervals s' = intervals s1 @ [(nextHandle s, 2000)]
             \<and> updatePodInterval s' = Some (nextHandle s)
         | (made, Some e) \<Rightarrow>
               made \<noteq> [] \<and> made = take (length made) plan
             \<and> (\<forall>i<length made - 1. answer_error b (calls s @ take i plan) (plan ! i) = None)
             \<and> answer_error b (calls s @ butlast made) (last made) = Some e
             \<and> calls s' = calls s @ made
                            @ [TelemetryTrack ''deployToKube'' (props\<lparr>errorMessage := Some (message e)\<rparr>)]
             \<and> intervals s' = intervals s1
             \<and> updatePodInterval s' = updatePodInterval s)"
proof -
  from prepare_Inr [OF assms] have s1: "s1 = prepared s" by simp
  let ?plan = "deploy_plan s1 servicesToCreate routesToCreate"
  let ?s' = "deployToKube_submit b servicesToCreate routesToCreate props s1"
  have d: "deployToKube b s = Inr ?s'"
    using assms by (simp add: deployToKube_def)
  have pl: "?plan = CreatePod (currentNamespace s) (bodyPod s1)
                   # map (CreateService (currentNamespace s)) servicesToCreate
                   @ map (CreateRoute (currentNamespace s)) routesToCreate"
    by (simp add: deploy_plan_def s1)
  obtain made r where i: "issued b (calls s) ?plan = (made, r)"
    by (cases "issued b (calls s) ?plan")
  note sr = submit_result [of b servicesToCreate routesToCreate props s1]
  have c1: "calls s1 = calls s" "nextHandle s1 = nextHandle s" "updatePodInterval s1 = updatePodInterval s"
    by (simp_all add: s1)
  show ?thesis
  proof (cases r)
    case None
    with i have m: "made = ?plan" using issued_None_all by blast
    have "\<forall>i<length ?plan. answer_error b (calls s @ take i ?plan) (?plan ! i) = None"
      using issued_earlier_returned [of _ b "calls s" ?plan] i None m by simp
    with sr i None c1 d show ?thesis
      unfolding pl [symmetric] Let_def by (intro exI [of _ ?s']) simp
  next
    case (Some e)
    from issued_Some_last [of b "calls s" ?plan e] i Some
    have l: "made \<noteq> []" "answer_error b (calls s @ butlast made) (last made) = Some e"
      by simp_all
    from issued_prefix [OF i] have p: "made = take (length made) ?plan" .
    have "\<forall>i<length made - 1. answer_error b (calls s @ take i ?plan) (?plan ! i) = None"
    proof (intro allI impI)
      fix j assume "j < length made - 1"
      then have "j < length made" "Suc j < length made" by simp_all
      with issued_earlier_returned [of j b "calls s" ?plan] i
      show "answer_error b (calls s @ take j ?plan) (?plan ! j) = None" by simp
    qed
    with sr i Some c1 d l p show ?thesis
      unfolding pl [symmetric] Let_def by (intro exI [of _ ?s']) simp
  qed
qed

lemma refusing_issued:
  "issued refusing_bridge []
     (CreatePod (Some ''demo'') (Some sample_sent_body)
        # map (CreateService (Some ''demo'')) sample_services @ map (CreateRoute (Some ''demo'')) sample_routes)
   = ([CreatePod (Some ''demo'') (Some sample_sent_body),
       CreateService (Some ''demo'') (sample_services ! 0),
       CreateService (Some ''demo'') (sample_services ! 1)],
      Some (Error ''services quota exceeded''))"
  by (simp add: sample_services_def sample_routes_def refusing_bridge_def sample_bridge_def)

lemma accepting_issued:
  "issued sample_bridge []
     (CreatePod (Some ''demo'') (Some sample_sent_body)
        # map (CreateService (Some ''demo'')) sample_services @ map (CreateRoute (Some ''demo'')) sample_routes)
   = (CreatePod (Some ''demo'') (Some sample_sent_body)
        # map (CreateService (Some ''demo'')) sample_services @ map (CreateRoute (Some ''demo'')) sample_routes,
      None)"
  by (simp add: sample_services_def sample_routes_def sample_bridge_def)

theorem deployToKube_call_sequence_witness:
  "(\<exists>s'. deployToKube refusing_bridge sample_wizard = Inr s'
         \<and> calls s' = [CreatePod (Some ''demo'') (Some sample_sent_body),
                       CreateService (Some ''demo'') (sample_services ! 0),
                       CreateService (Some ''demo'') (sample_services ! 1),
                       TelemetryTrack ''deployToKube''
                         \<lparr>useServices = True, useRoutes = True, isOpenshift = Some True,
                          errorMessage = Some ''services quota exceeded''\<rparr>]
         \<and> intervals s' = [])
   \<and> (\<exists>s'. deployToKube sample_bridge sample_wizard = Inr s'
         \<and> calls s' = CreatePod (Some ''demo'') (Some sample_sent_body)
                        # map (CreateService (Some ''demo'')) sample_services
                        @ map (CreateRoute (Some ''demo'')) sample_routes
                        @ [TelemetryTrack ''deployToKube''
                             \<lparr>useServices = True, useRoutes = True, isOpenshift = Some True,
                              errorMessage = None\<rparr>]
         \<and> intervals s' = [(1, 2000)]
         \<and> updatePodInterval s' = Some 1)"
proof -
  have f: "calls sample_wizard = []" "currentNamespace sample_wizard = Some ''demo''"
    "nextHandle sample_wizard = 1"
    by (simp_all add: sample_wizard_def)
  note ta = deployToKube_call_sequence [OF sample_prepare, of refusing_bridge,
      unfolded f sample_prepared_fields sample_properties Let_def refusing_issued]
  note tb = deployToKube_call_sequence [OF sample_prepare, of sample_bridge,
      unfolded f sample_prepared_fields sample_properties Let_def accepting_issued]
  from ta
  have a: "\<exists>s'. deployToKube refusing_bridge sample_wizard = Inr s'
         \<and> calls s' = [CreatePod (Some ''demo'') (Some sample_sent_body),
                       CreateService (Some ''demo'') (sample_services ! 0),
                       CreateService (Some ''demo'') (sample_services ! 1),
                       TelemetryTrack ''deployToKube''
                         \<lparr>useServices = True, useRoutes = True, isOpenshift = Some True,
                          errorMessage = Some ''services quota exceeded''\<rparr>]
         \<and> intervals s' = []"
    by auto
  from tb
  have b: "\<exists>s'. deployToKube sample_bridge sample_wizard = Inr s'
         \<and> calls s' = CreatePod (Some ''demo'') (Some sample_sent_body)
                        # map (CreateService (Some ''demo'')) sample_services
                        @ map (CreateRoute (Some ''demo'')) sample_routes
                        @ [TelemetryTrack ''deployToKube''
                             \<lparr>useServices = True, useRoutes = True, isOpenshift = Some True,
                              errorMessage = None\<rparr>]
         \<and> intervals s' = [(1, 2000)]
         \<and> updatePodInterval s' = Some 1"
    by auto
  from a b show ?thesis by (rule conjI)
qed

text \<open>
  Claim C5. Let the local part of \<^verbatim>\<open>deployToKube\<close> be done; the function then returns. If one
  of its bridge calls (the creation of the pod, of a service or of a route) throws, and it is
  the first to do so, then afterwards \<^verbatim>\<open>deployError\<close> holds the error thrown,
  \<^verbatim>\<open>deployStarted\<close> and \<^verbatim>\<open>deployFinished\<close> are both false, and no interval has been started:
  the running intervals are those from before the call without the one the function cleared at
  its start. If none of the calls throws, \<^verbatim>\<open>deployError\<close> is still the empty string,
  \<^verbatim>\<open>deployStarted\<close> is still true and \<^verbatim>\<open>deployFinished\<close> is false.
\<close>

theorem deployToKube_error_handling:
  assumes "deployToKube_prepare s = Inr (s1, servicesToCreate, routesToCreate, props)"
  shows "\<exists>s'. deployToKube b s = Inr s' \<and>
     (let plan = CreatePod (currentNamespace s) (bodyPod s1)
                   # map (CreateService (currentNamespace s)) servicesToCreate
                   @ map (CreateRoute (currentNamespace s)) routesToCreate
      in (\<forall>i e. i < length plan
                 \<and> answer_error b (calls s @ take i plan) (plan ! i) = Some e
                 \<and> (\<forall>j<i. answer_error b (calls s @ take j plan) (plan ! j) = None)
             \<longrightarrow> deployError s' = Some e \<and> \<not> deployStarted s' \<and> \<not> deployFinished s'
               \<and> intervals s' = filter (\<lambda>(h, ms). Some h \<noteq> updatePodInterval s) (intervals s))
       \<and> ((\<forall>i<length plan. answer_error b (calls s @ take i plan) (plan ! i) = None)
             \<longrightarrow> deployError s' = None \<and> deployStarted s' \<and> \<not> deployFinished s'))"
proof -
  from prepare_Inr [OF assms] have s1: "s1 = prepared s" by simp
  let ?plan = "deploy_plan s1 servicesToCreate routesToCreate"
  let ?s' = "deployToKube_submit b servicesToCreate routesToCreate props s1"
  have d: "deployToKube b s = Inr ?s'"
    using assms by (simp add: deployToKube_def)
  have pl: "?plan = CreatePod (currentNamespace s) (bodyPod s1)
                   # map (CreateService (currentNamespace s)) servicesToCreate
                   @ map (CreateRoute (currentNamespace s)) routesToCreate"
    by (simp add: deploy_plan_def s1)
  note sr = submit_result [of b servicesToCreate routesToCreate props s1]
  have c1: "calls s1 = calls s"
    "intervals s1 = filter (\<lambda>(h, ms). Some h \<noteq> updatePodInterval s) (intervals s)"
    "deployError s1 = None" "deployStarted s1" "\<not> deployFinished s1"
    by (simp_all add: s1)
  have fail: "deployError ?s' = Some e \<and> \<not> deployStarted ?s' \<and> \<not> deployFinished ?s'
               \<and> intervals ?s' = filter (\<lambda>(h, ms). Some h \<noteq> updatePodInterval s) (intervals s)"
    if "i < length ?plan" "answer_error b (calls s @ take i ?plan) (?plan ! i) = Some e"
      "\<forall>j<i. answer_error b (calls s @ take j ?plan) (?plan ! j) = None" for i e
  proof -
    from issued_first_failure [OF that] have "issued b (calls s) ?plan = (take (Suc i) ?plan, Some e)" .
    with sr c1 show ?thesis by simp
  qed
  have ok: "deployError ?s' = None \<and> deployStarted ?s' \<and> \<not> deployFinished ?s'"
    if "\<forall>i<length ?plan. answer_error b (calls s @ take i ?plan) (?plan ! i) = None"
  proof -
    from issued_all_return [OF that] have "issued b (calls s) ?plan = (?plan, None)" .
    with sr c1 show ?thesis by simp
  qed
  show ?thesis
    unfolding pl [symmetric] Let_def using d fail ok by (intro exI [of _ ?s']) blast
qed

theorem deployToKube_error_handling_witness:
  "(\<exists>s'. deployToKube refusing_bridge sample_wizard = Inr s'
         \<and> deployError s' = Some (Error ''services quota exceeded'')
         \<and> \<not> deployStarted s' \<and> \<not> deployFinished s' \<and> intervals s' = [])
   \<and> (\<exists>s'. deployToKube sample_bridge sample_wizard = Inr s'
         \<and> deployError s' = None \<and> deployStarted s' \<and> \<not> deployFinished s')"
proof -
  let ?plan = "CreatePod (currentNamespace sample_wizard) (bodyPod (prepared sample_wizard))
        # map (CreateService (currentNamespace sample_wizard)) sample_services
        @ map (CreateRoute (currentNamespace sample_wizard)) sample_routes"
  have fail: "\<exists>s'. deployToKube b s = Inr s' \<and> deployError s' = Some e \<and> \<not> deployStarted s'
                \<and> \<not> deployFinished s'
                \<and> intervals s' = filter (\<lambda>(h, ms). Some h \<noteq> updatePodInterval s) (intervals s)"
    if "deployToKube_prepare s = Inr (s1, sv, rt, props)"
      and "i < length (CreatePod (currentNamespace s) (bodyPod s1)
                   # map (CreateService (currentNamespace s)) sv @ map (CreateRoute (currentNamespace s)) rt)"
      and "answer_error b (calls s @ take i (CreatePod (currentNamespace s) (bodyPod s1)
                   # map (CreateService (currentNamespace s)) sv @ map (CreateRoute (currentNamespace s)) rt))
             ((CreatePod (currentNamespace s) (bodyPod s1)
                   # map (CreateService (currentNamespace s)) sv @ map (CreateRoute (currentNamespace s)) rt) ! i) = Some e"
      and "\<forall>j<i. answer_error b (calls s @ take j (CreatePod (currentNamespace s) (bodyPod s1)
                   # map (CreateService (currentNamespace s)) sv @ map (CreateRoute (currentNamespace s)) rt))
             ((CreatePod (currentNamespace s) (bodyPod s1)
                   # map (CreateService (currentNamespace s)) sv @ map (CreateRoute (currentNamespace s)) rt) ! j) = None"
    for b s s1 sv rt props i e
    using deployToKube_error_handling [OF that(1), of b] that(2,3,4) unfolding Let_def by blast
  have ok: "\<exists>s'. deployToKube b s = Inr s' \<and> deployError s' = None \<and> deployStarted s' \<and> \<not> deployFinished s'"
    if "deployToKube_prepare s = Inr (s1, sv, rt, props)"
      and "\<forall>i<length (CreatePod (currentNamespace s) (bodyPod s1)
                   # map (CreateService (currentNamespace s)) sv @ map (CreateRoute (currentNamespace s)) rt).
             answer_error b (calls s @ take i (CreatePod (currentNamespace s) (bodyPod s1)
                   # map (CreateService (currentNamespace s)) sv @ map (CreateRoute (currentNamespace s)) rt))
             ((CreatePod (currentNamespace s) (bodyPod s1)
                   # map (CreateService (currentNamespace s)) sv @ map (CreateRoute (currentNamespace s)) rt) ! i) = None"
    for b s s1 sv rt props
    using deployToKube_error_handling [OF that(1), of b] that(2) unfolding Let_def by blast
  have len: "2 < length ?plan"
    by (simp add: sample_services_def sample_routes_def)
  have two: "answer_error refusing_bridge (calls sample_wizard @ take 2 ?plan) (?plan ! 2)
               = Some (Error ''services quota exceeded'')"
    by (simp add: sample_services_def sample_routes_def refusing_bridge_def sample_bridge_def sample_wizard_def)
  have before: "\<forall>j<2. answer_error refusing_bridge (calls sample_wizard @ take j ?plan) (?plan ! j) = None"
    by (simp add: less_2_cases_iff sample_services_def sample_routes_def refusing_bridge_def sample_bridge_def
          sample_wizard_def)
  have all: "\<forall>i<length ?plan. answer_error sample_bridge (calls sample_wizard @ take i ?plan) (?plan ! i) = None"
  proof (intro allI impI)
    fix i assume "i < length ?plan"
    then have "i < 5" by (simp add: sample_services_def sample_routes_def)
    then consider "i = 0" | "i = 1" | "i = 2" | "i = 3" | "i = 4" by linarith
    then show "answer_error sample_bridge (calls sample_wizard @ take i ?plan) (?plan ! i) = None"
      by cases (simp_all add: sample_services_def sample_routes_def sample_bridge_def)
  qed
  have none: "filter (\<lambda>(h, ms). Some h \<noteq> updatePodInterval sample_wizard) (intervals sample_wizard) = []"
    by (simp add: sample_wizard_def)
  from fail [OF sample_prepare len two before]
  have a: "\<exists>s'. deployToKube refusing_bridge sample_wizard = Inr s'
         \<and> deployError s' = Some (Error ''services quota exceeded'')
         \<and> \<not> deployStarted s' \<and> \<not> deployFinished s' \<and> intervals s' = []"
    unfolding none .
  from ok [OF sample_prepare all]
  have b: "\<exists>s'. deployToKube sample_bridge sample_wizard = Inr s'
         \<and> deployError s' = None \<and> deployStarted s' \<and> \<not> deployFinished s'" .
  from a b show ?thesis by (rule conjI)
qed

section \<open>Properties of polling\<close>

text \<open>As long as nothing comes between the statements of \<^verbatim>\<open>deployToKube\<close>, the only interval
  that can be running is the one whose handle \<^verbatim>\<open>updatePodInterval\<close> holds: a deployment and a
  poll keep it so, and \<^verbatim>\<open>onDestroy\<close> then leaves no interval behind.\<close>

lemma deployToKube_keeps_own_interval:
  assumes "\<forall>x \<in> set (intervals s). Some (fst x) = updatePodInterval s"
    and "deployToKube b s = Inr s'"
  shows "\<forall>x \<in> set (intervals s'). Some (fst x) = updatePodInterval s'"
proof -
  from deployToKube_Inr [OF assms(2)] obtain sv rt
    where s': "s' = deployToKube_submit b sv rt (properties_of s) (prepared s)"
    by blast
  have e: "intervals (prepared s) = []"
    using assms(1) by (auto simp: filter_empty_conv)
  obtain made r where i: "issued b (calls (prepared s)) (deploy_plan (prepared s) sv rt) = (made, r)"
    by (cases "issued b (calls (prepared s)) (deploy_plan (prepared s) sv rt)")
  with submit_result [of b sv rt "properties_of s" "prepared s"] e show ?thesis
    unfolding s' by (cases r) auto
qed

lemma updatePod_keeps_own_interval:
  assumes "\<forall>x \<in> set (intervals s). Some (fst x) = updatePodInterval s"
  shows "\<forall>x \<in> set (intervals (fst (updatePod b s))). Some (fst x) = updatePodInterval (fst (updatePod b s))"
  using assms
  by (auto simp: updatePod_def Let_def intervals_clearInterval split: option.splits sum.splits)

lemma onDestroy_own_interval:
  assumes "\<forall>x \<in> set (intervals s). Some (fst x) = updatePodInterval s"
  shows "intervals (onDestroy s) = []"
  using assms by (auto simp: onDestroy_intervals filter_empty_conv)

lemma sample_wizard_fields:
  "calls sample_wizard = []" "intervals sample_wizard = []" "nextHandle sample_wizard = 1"
  "updatePodInterval sample_wizard = None" "currentNamespace sample_wizard = Some ''demo''"
  "deployUsingServices sample_wizard" "deployUsingRoutes sample_wizard"
  "bodyPod sample_wizard = Some sample_body"
  by (simp_all add: sample_wizard_def)

lemma sample_submit_fields:
  "intervals (deployToKube_submit sample_bridge sample_services sample_routes (properties_of sample_wizard)
                (prepared sample_wizard)) = [(1, 2000)]"
  "updatePodInterval (deployToKube_submit sample_bridge sample_services sample_routes (properties_of sample_wizard)
                (prepared sample_wizard)) = Some 1"
  "createdPod (deployToKube_submit sample_bridge sample_services sample_routes (properties_of sample_wizard)
                (prepared sample_wizard))
     = Some \<lparr>cluster_name = Some ''web'', cluster_namespace = Some ''demo'', status_phase = Some ''Pending''\<rparr>"
  by (simp_all add: deployToKube_submit_def sample_bridge_def sample_services_def sample_routes_def Let_def
        setInterval_def sample_wizard_fields)

text \<open>
  Claim C4. A successful deployment starts the interval with a period of 2000 ms, a read
  that reports \<^verbatim>\<open>Running\<close> clears it and sets
  \<^verbatim>\<open>deployFinished\<close> (\<open>updatePod_Running\<close>), and \<^verbatim>\<open>onDestroy\<close> clears the interval whose
  handle \<^verbatim>\<open>updatePodInterval\<close> holds (\<open>onDestroy_intervals\<close>). The handle is stored only by the
  last statement of \<^verbatim>\<open>deployToKube\<close>, though, and the function pauses at every \<^verbatim>\<open>await\<close>
  before it. When the component is destroyed while \<^verbatim>\<open>deployToKube\<close> waits for its first
  bridge call, \<^verbatim>\<open>onDestroy\<close> finds no handle to clear; the rest of \<^verbatim>\<open>deployToKube\<close> then
  runs on and starts the interval, so the pod is polled after the wizard is gone, until it
  reports \<^verbatim>\<open>Running\<close>. The run below is that one, on the sample wizard and a cluster that
  keeps the pod pending: the local part, then \<^verbatim>\<open>onDestroy\<close>, then the \<^verbatim>\<open>try\<close> block, then
  one period of the timers. (The first call of the \<^verbatim>\<open>try\<close> block is made before the pause;
  its answer does not depend on \<^verbatim>\<open>onDestroy\<close>, which touches the timers only, so the run is
  the same with the call written after it.)
\<close>

theorem deployToKube_interval_survives_destroy:
  "deployToKube_prepare sample_wizard
     = Inr (prepared sample_wizard, sample_services, sample_routes, properties_of sample_wizard)
   \<and> intervals (onDestroy (prepared sample_wizard)) = []
   \<and> intervals (deployToKube_submit sample_bridge sample_services sample_routes (properties_of sample_wizard)
                  (onDestroy (prepared sample_wizard))) = [(1, 2000)]
   \<and> intervals (interval_tick sample_bridge
                  (deployToKube_submit sample_bridge sample_services sample_routes (properties_of sample_wizard)
                     (onDestroy (prepared sample_wizard)))) = [(1, 2000)]
   \<and> last (calls (interval_tick sample_bridge
                  (deployToKube_submit sample_bridge sample_services sample_routes (properties_of sample_wizard)
                     (onDestroy (prepared sample_wizard)))))
       = ReadNamespacedPod (Some ''web'') (Some ''demo'')"
proof -
  have d: "onDestroy (prepared sample_wizard) = prepared sample_wizard"
    by (simp add: onDestroy_def sample_wizard_fields)
  have i: "intervals (prepared sample_wizard) = []"
    by (rule sample_prepared_fields)
  let ?s = "deployToKube_submit sample_bridge sample_services sample_routes (properties_of sample_wizard)
                (prepared sample_wizard)"
  have t: "interval_tick sample_bridge ?s = fst (updatePod sample_bridge ?s)"
    by (simp add: interval_tick_def sample_submit_fields)
  have rd: "kubernetesReadNamespacedPod sample_bridge log n ns
              = Inr \<lparr>cluster_name = n, cluster_namespace = ns, status_phase = Some ''Pending''\<rparr>" for log n ns
    by (simp add: sample_bridge_def)
  have u: "intervals (fst (updatePod sample_bridge ?s)) = [(1, 2000)]"
    "last (calls (fst (updatePod sample_bridge ?s))) = ReadNamespacedPod (Some ''web'') (Some ''demo'')"
    by (simp_all add: updatePod_def sample_submit_fields rd Let_def)
  show ?thesis
    unfolding d t using sample_prepare i sample_submit_fields(1) u by simp
qed

end
